theory Spec2Isabelle
  imports Main "HOL-Library.Word"
begin

unbundle bit_operations_syntax

section \<open>The rbd block device module (lib/bdev/rbd/blockdev_rbd.c)\<close>

text \<open>
  C objects live in explicit stores indexed by address. A pointer that the code compares
  with \<open>NULL\<close> is an \<open>addr option\<close>; reading through a pointer that is not mapped in its
  store is the fault \<open>InvalidPointer\<close>. \<open>int\<close> is \<open>32 word\<close> (read with \<open>sint\<close>),
  \<open>uint32_t\<close> is \<open>32 word\<close> (read with \<open>unat\<close>), \<open>size_t\<close>, \<open>uint64_t\<close> and \<open>long\<close>
  are \<open>64 word\<close>. Calls into librados, librbd, pthread and the bdev framework are
  recorded, in program order, in a trace of events; what the backend returns is an
  input of the model.
\<close>

type_synonym addr = nat

datatype fault = InvalidPointer | DivideByZero

datatype blockdev_rbd_data_direction = BLOCKDEV_RBD_READ | BLOCKDEV_RBD_WRITE

datatype spdk_bdev_io_status = SPDK_BDEV_IO_STATUS_SUCCESS | SPDK_BDEV_IO_STATUS_FAILED

datatype event =
    RadosCreate
  | RadosConfReadFile
  | RadosConnect
  | RadosIoctxCreate string
  | RadosIoctxDestroy
  | RadosShutdown
  | RbdOpen string
  | RbdStat
  | RbdClose
  | RbdFlush
  | RbdAioCreateCompletion addr
  | RbdAioRead "64 word" "64 word"
  | RbdAioWrite "64 word" "64 word"
  | RbdAioRelease
  | MutexInit addr
  | MutexLock addr
  | MutexUnlock addr
  | SpdkBdevIoComplete addr spdk_bdev_io_status
  | SpdkPollerRegister addr
  | SpdkPollerUnregister addr
  | SpdkIoDeviceRegister string
  | SpdkBdevRegister string

subsection \<open>Requests and channels\<close>

text \<open>\<open>struct blockdev_rbd_io\<close>; the field \<open>next\<close> is \<open>io_next\<close> here.\<close>

record blockdev_rbd_io =
  direction :: blockdev_rbd_data_direction
  status :: "32 word"
  len :: "64 word"
  completion :: bool
  ch :: addr
  io_next :: "addr option"

text \<open>
  \<open>struct blockdev_rbd_io_channel\<close>. The three backend handles are kept as
  "is not \<open>NULL\<close>"; \<open>lock\<close> and \<open>poller\<close> show in the trace only.
\<close>

record blockdev_rbd_io_channel =
  io_ctx :: bool
  cluster :: bool
  image :: bool
  req_head :: "addr option"

record rbd_state =
  ios :: "addr \<rightharpoonup> blockdev_rbd_io"
  chans :: "addr \<rightharpoonup> blockdev_rbd_io_channel"
  trace :: "event list"

definition emit :: "event list \<Rightarrow> rbd_state \<Rightarrow> rbd_state" where
  "emit es st = st\<lparr>trace := trace st @ es\<rparr>"

subsection \<open>The completion callback\<close>

text \<open>
  \<open>blockdev_rbd_finish_aiocb(cb, arg)\<close>: \<open>arg\<close> is the address of the request and
  \<open>retval\<close> is what \<open>rbd_aio_get_return_value(cb)\<close> gives, stored in the \<open>int status\<close>.
  A read compares \<open>(int)cmd->len\<close> with it.
\<close>

definition blockdev_rbd_finish_aiocb :: "addr \<Rightarrow> 32 word \<Rightarrow> rbd_state \<Rightarrow> fault + rbd_state" where
  "blockdev_rbd_finish_aiocb arg retval st =
     (case ios st arg of
        None \<Rightarrow> Inl InvalidPointer
      | Some cmd \<Rightarrow>
          let cmd1 =
                (if direction cmd = BLOCKDEV_RBD_READ then
                   (if (ucast (len cmd) :: 32 word) = retval
                    then cmd\<lparr>status := 0\<rparr> else cmd\<lparr>status := - 1\<rparr>)
                 else
                   (if retval = 0
                    then cmd\<lparr>status := 0\<rparr> else cmd\<lparr>status := - 1\<rparr>));
              st1 = emit [RbdAioRelease] st
          in (case chans st1 (ch cmd1) of
                None \<Rightarrow> Inl InvalidPointer
              | Some c \<Rightarrow>
                  Inr (emit [MutexLock (ch cmd1), MutexUnlock (ch cmd1)]
                        (st1\<lparr>ios := (ios st1)(arg \<mapsto> cmd1\<lparr>io_next := req_head c\<rparr>),
                             chans := (chans st1)(ch cmd1 \<mapsto> c\<lparr>req_head := Some arg\<rparr>)\<rparr>))))"

subsection \<open>The poller\<close>

text \<open>
  The \<open>while (req != NULL)\<close> loop of \<open>blockdev_rbd_io_poll\<close>. It follows \<open>next\<close>
  pointers for as long as they are not \<open>NULL\<close>, so on a cyclic list it does not return:
  the result \<open>None\<close>.
\<close>

partial_function (option) io_poll_loop :: "addr option \<Rightarrow> rbd_state \<Rightarrow> (fault + rbd_state) option" where
  "io_poll_loop req st =
     (case req of
        None \<Rightarrow> Some (Inr st)
      | Some a \<Rightarrow>
          (case ios st a of
             None \<Rightarrow> Some (Inl InvalidPointer)
           | Some r \<Rightarrow>
               io_poll_loop (io_next r)
                 (emit [SpdkBdevIoComplete a
                          (if status r = 0 then SPDK_BDEV_IO_STATUS_SUCCESS
                           else SPDK_BDEV_IO_STATUS_FAILED)] st)))"

declare io_poll_loop.simps [code]

definition blockdev_rbd_io_poll :: "addr \<Rightarrow> rbd_state \<Rightarrow> (fault + rbd_state) option" where
  "blockdev_rbd_io_poll arg st =
     (case chans st arg of
        None \<Rightarrow> Some (Inl InvalidPointer)
      | Some c \<Rightarrow>
          (case io_poll_loop (req_head c)
                  ((emit [MutexLock arg] st)\<lparr>chans := (chans st)(arg \<mapsto> c\<lparr>req_head := None\<rparr>)\<rparr>) of
             None \<Rightarrow> None
           | Some (Inl f) \<Rightarrow> Some (Inl f)
           | Some (Inr st') \<Rightarrow> Some (Inr (emit [MutexUnlock arg] st'))))"

subsection \<open>Submission\<close>

text \<open>
  What librbd answers to the calls of one submission: the return values of
  \<open>rbd_aio_create_completion\<close>, \<open>rbd_aio_read\<close> and \<open>rbd_aio_write\<close>.
\<close>

record aio_backend =
  aio_create_completion_ret :: "32 word"
  aio_read_ret :: "32 word"
  aio_write_ret :: "32 word"

definition blockdev_rbd_start_aio ::
    "aio_backend \<Rightarrow> addr \<Rightarrow> 64 word \<Rightarrow> 64 word \<Rightarrow> rbd_state \<Rightarrow> fault + (32 word \<times> rbd_state)" where
  "blockdev_rbd_start_aio be cmd offset n st =
     (case ios st cmd of
        None \<Rightarrow> Inl InvalidPointer
      | Some r \<Rightarrow>
          let st1 = emit [RbdAioCreateCompletion cmd] st in
          if sint (aio_create_completion_ret be) < 0 then Inr (- 1, st1)
          else
            let st2 = st1\<lparr>ios := (ios st1)(cmd \<mapsto> r\<lparr>completion := True\<rparr>)\<rparr>;
                (ret, st3) =
                  (if direction r = BLOCKDEV_RBD_READ
                   then (aio_read_ret be, emit [RbdAioRead offset n] st2)
                   else (aio_write_ret be, emit [RbdAioWrite offset n] st2))
            in if sint ret < 0 then Inr (- 1, emit [RbdAioRelease] st3)
               else Inr (0, st3))"

text \<open>
  \<open>blockdev_rbd_read\<close>: \<open>chn\<close> is the channel context that
  \<open>spdk_io_channel_get_ctx(ch)\<close> gives. The \<open>int\<close> of \<open>blockdev_rbd_start_aio\<close> is
  returned as \<open>int64_t\<close>.
\<close>

definition blockdev_rbd_read ::
    "aio_backend \<Rightarrow> addr \<Rightarrow> addr \<Rightarrow> 64 word \<Rightarrow> 64 word \<Rightarrow> rbd_state \<Rightarrow> fault + (64 word \<times> rbd_state)" where
  "blockdev_rbd_read be chn cmd nbytes offset st =
     (case ios st cmd of
        None \<Rightarrow> Inl InvalidPointer
      | Some r \<Rightarrow>
          let st1 = st\<lparr>ios := (ios st)(cmd \<mapsto>
                        r\<lparr>ch := chn, direction := BLOCKDEV_RBD_READ, len := nbytes\<rparr>)\<rparr>
          in (case chans st1 chn of
                None \<Rightarrow> Inl InvalidPointer
              | Some c \<Rightarrow>
                  (case blockdev_rbd_start_aio be cmd offset nbytes st1 of
                     Inl f \<Rightarrow> Inl f
                   | Inr (ret, st2) \<Rightarrow> Inr (scast ret, st2))))"

record iovec =
  iov_base :: "64 word"
  iov_len :: "64 word"

text \<open>
  \<open>blockdev_rbd_writev\<close>: \<open>iov\<close> is the array of segments and \<open>iovcnt\<close> the \<open>int\<close>
  passed with it; \<open>iov->iov_len\<close> reads the first segment, and only when
  \<open>iovcnt != 1\<close> is false.
\<close>

definition blockdev_rbd_writev ::
    "aio_backend \<Rightarrow> addr \<Rightarrow> addr \<Rightarrow> iovec list \<Rightarrow> 32 word \<Rightarrow> 64 word \<Rightarrow> 64 word \<Rightarrow> rbd_state
       \<Rightarrow> fault + (64 word \<times> rbd_state)" where
  "blockdev_rbd_writev be chn cmd iov iovcnt n offset st =
     (if iovcnt \<noteq> 1 then Inr (- 1, st)
      else (case iov of
              [] \<Rightarrow> Inl InvalidPointer
            | v # vs \<Rightarrow>
                if iov_len v \<noteq> n then Inr (- 1, st)
                else (case ios st cmd of
                        None \<Rightarrow> Inl InvalidPointer
                      | Some r \<Rightarrow>
                          let st1 = st\<lparr>ios := (ios st)(cmd \<mapsto>
                                        r\<lparr>ch := chn, direction := BLOCKDEV_RBD_WRITE\<rparr>)\<rparr>
                          in (case chans st1 chn of
                                None \<Rightarrow> Inl InvalidPointer
                              | Some c \<Rightarrow>
                                  (case blockdev_rbd_start_aio be cmd offset n st1 of
                                     Inl f \<Rightarrow> Inl f
                                   | Inr (ret, st2) \<Rightarrow> Inr (scast ret, st2))))))"

text \<open>
  Modelled from the spec: \<open>enum spdk_bdev_io_type\<close> of spdk/bdev.h, which is not among
  the sources. Operations are reads, writes and others: the two enumerators the module
  names, and \<open>SPDK_BDEV_IO_TYPE_OTHER\<close> for every other one (they all take the
  \<open>default\<close> branches).
\<close>

datatype spdk_bdev_io_type =
    SPDK_BDEV_IO_TYPE_READ
  | SPDK_BDEV_IO_TYPE_WRITE
  | SPDK_BDEV_IO_TYPE_OTHER nat

text \<open>
  Modelled from the spec: \<open>struct spdk_bdev_io\<close> of spdk/bdev.h, which is not among the
  sources, as the fields that the module reads (\<open>io_type\<close> is \<open>type\<close>, \<open>io_ch\<close> is
  \<open>ch\<close>, \<open>u_read_nbytes\<close> is \<open>u.read.nbytes\<close>, and so on). \<open>driver_ctx\<close> is the
  address of the request embedded in the operation, which \<open>spdk_bdev_io_from_ctx\<close>
  maps back to the operation: a completion names the operation by it.
\<close>

record spdk_bdev_io =
  io_type :: spdk_bdev_io_type
  io_ch :: addr
  driver_ctx :: addr
  u_read_nbytes :: "64 word"
  u_read_offset :: "64 word"
  u_write_iovs :: "iovec list"
  u_write_iovcnt :: "32 word"
  u_write_len :: "64 word"
  u_write_offset :: "64 word"

text \<open>\<open>blockdev_rbd_get_rbuf_cb\<close>: the \<open>int64_t\<close> of \<open>blockdev_rbd_read\<close> is stored in an \<open>int\<close>.\<close>

definition blockdev_rbd_get_rbuf_cb :: "aio_backend \<Rightarrow> spdk_bdev_io \<Rightarrow> rbd_state \<Rightarrow> fault + rbd_state" where
  "blockdev_rbd_get_rbuf_cb be bdev_io st =
     (case blockdev_rbd_read be (io_ch bdev_io) (driver_ctx bdev_io)
             (u_read_nbytes bdev_io) (u_read_offset bdev_io) st of
        Inl f \<Rightarrow> Inl f
      | Inr (ret64, st1) \<Rightarrow>
          let ret = (ucast ret64 :: 32 word) in
          if ret \<noteq> 0
          then Inr (emit [SpdkBdevIoComplete (driver_ctx bdev_io) SPDK_BDEV_IO_STATUS_FAILED] st1)
          else Inr st1)"

text \<open>
  Modelled from the spec: \<open>spdk_bdev_io_get_rbuf\<close> of lib/bdev, which is not among the
  sources. A submitted read issues its asynchronous operation at submission: the framework
  hands the operation a buffer and calls the callback at once.
\<close>

definition spdk_bdev_io_get_rbuf ::
    "(spdk_bdev_io \<Rightarrow> rbd_state \<Rightarrow> fault + rbd_state) \<Rightarrow> spdk_bdev_io \<Rightarrow> rbd_state
       \<Rightarrow> fault + rbd_state" where
  "spdk_bdev_io_get_rbuf cb bdev_io st = cb bdev_io st"

text \<open>\<open>_blockdev_rbd_submit_request\<close>.\<close>

definition blockdev_rbd_submit_request_inner ::
    "aio_backend \<Rightarrow> spdk_bdev_io \<Rightarrow> rbd_state \<Rightarrow> fault + (32 word \<times> rbd_state)" where
  "blockdev_rbd_submit_request_inner be bdev_io st =
     (case io_type bdev_io of
        SPDK_BDEV_IO_TYPE_READ \<Rightarrow>
          (case spdk_bdev_io_get_rbuf (blockdev_rbd_get_rbuf_cb be) bdev_io st of
             Inl f \<Rightarrow> Inl f
           | Inr st1 \<Rightarrow> Inr (0, st1))
      | SPDK_BDEV_IO_TYPE_WRITE \<Rightarrow>
          (case blockdev_rbd_writev be (io_ch bdev_io) (driver_ctx bdev_io)
                  (u_write_iovs bdev_io) (u_write_iovcnt bdev_io)
                  (u_write_len bdev_io) (u_write_offset bdev_io) st of
             Inl f \<Rightarrow> Inl f
           | Inr (ret64, st1) \<Rightarrow> Inr (ucast ret64, st1))
      | SPDK_BDEV_IO_TYPE_OTHER k \<Rightarrow> Inr (- 1, st))"

definition blockdev_rbd_submit_request :: "aio_backend \<Rightarrow> spdk_bdev_io \<Rightarrow> rbd_state \<Rightarrow> fault + rbd_state" where
  "blockdev_rbd_submit_request be bdev_io st =
     (case blockdev_rbd_submit_request_inner be bdev_io st of
        Inl f \<Rightarrow> Inl f
      | Inr (ret, st1) \<Rightarrow>
          if sint ret < 0
          then Inr (emit [SpdkBdevIoComplete (driver_ctx bdev_io) SPDK_BDEV_IO_STATUS_FAILED] st1)
          else Inr st1)"

definition blockdev_rbd_io_type_supported :: "spdk_bdev_io_type \<Rightarrow> bool" where
  "blockdev_rbd_io_type_supported t =
     (case t of
        SPDK_BDEV_IO_TYPE_READ \<Rightarrow> True
      | SPDK_BDEV_IO_TYPE_WRITE \<Rightarrow> True
      | SPDK_BDEV_IO_TYPE_OTHER k \<Rightarrow> False)"

subsection \<open>Backend bootstrap\<close>

text \<open>
  What librados and librbd answer during one bootstrap: the return value of each call and
  the size that \<open>rbd_stat\<close> reports.
\<close>

record rados_backend =
  rados_create_ret :: "32 word"
  rados_conf_read_file_ret :: "32 word"
  rados_connect_ret :: "32 word"
  rados_ioctx_create_ret :: "32 word"
  rbd_open_ret :: "32 word"
  rbd_stat_ret :: "32 word"
  rbd_stat_size :: "64 word"

text \<open>
  \<open>blockdev_rados_context_init\<close>. The out-parameters \<open>*cluster\<close> and \<open>*io_ctx\<close> are
  passed in and returned as "is not \<open>NULL\<close>"; the result is the \<open>int\<close>, the two handles
  and the backend calls made, in order.
\<close>

definition blockdev_rados_context_init ::
    "rados_backend \<Rightarrow> string \<Rightarrow> bool \<Rightarrow> bool \<Rightarrow> 32 word \<times> bool \<times> bool \<times> event list" where
  "blockdev_rados_context_init be rbd_pool_name cl io =
     (if sint (rados_create_ret be) < 0 then (- 1, cl, io, [RadosCreate])
      else if sint (rados_conf_read_file_ret be) < 0
      then (- 1, True, io, [RadosCreate, RadosConfReadFile, RadosShutdown])
      else
        let es = [RadosCreate, RadosConfReadFile, RadosConnect]
                 @ (if sint (rados_connect_ret be) < 0 then [RadosShutdown] else [])
                 @ [RadosIoctxCreate rbd_pool_name]
        in if sint (rados_ioctx_create_ret be) < 0
           then (- 1, True, io, es @ [RadosShutdown])
           else (0, True, True, es))"

text \<open>\<open>rbd_image_info_t\<close>: the module reads its \<open>size\<close> only.\<close>

record rbd_image_info_t =
  info_size :: "64 word"

text \<open>
  \<open>blockdev_rbd_init\<close>: the \<open>int\<close>, the \<open>*info\<close> it leaves (the caller's on a failure)
  and the backend calls made.
\<close>

definition blockdev_rbd_init ::
    "rados_backend \<Rightarrow> string \<Rightarrow> string \<Rightarrow> rbd_image_info_t
       \<Rightarrow> 32 word \<times> rbd_image_info_t \<times> event list" where
  "blockdev_rbd_init be rbd_pool_name rbd_name info =
     (case blockdev_rados_context_init be rbd_pool_name False False of
        (ret, cl, io, es) \<Rightarrow>
          if sint ret < 0 then (- 1, info, es)
          else if sint (rbd_open_ret be) < 0
          then (- 1, info, es @ [RbdOpen rbd_name, RadosIoctxDestroy, RadosShutdown])
          else if sint (rbd_stat_ret be) < 0
          then (- 1, info,
                es @ [RbdOpen rbd_name, RbdStat, RbdClose, RadosIoctxDestroy, RadosShutdown])
          else (0, info\<lparr>info_size := rbd_stat_size be\<rparr>,
                es @ [RbdOpen rbd_name, RbdStat, RbdClose]))"

subsection \<open>Devices\<close>

text \<open>
  Modelled from the spec: \<open>struct spdk_bdev\<close> of spdk/bdev.h, which is not among the
  sources. A device has a name, a block size and a block count; these are the fields the
  module writes, \<open>blocklen\<close> taken as \<open>uint32_t\<close> and \<open>blockcnt\<close> as \<open>uint64_t\<close>.
\<close>

record spdk_bdev =
  name :: string
  product_name :: string
  write_cache :: "32 word"
  blocklen :: "32 word"
  blockcnt :: "64 word"

text \<open>
  \<open>struct blockdev_rbd\<close>. \<open>pool_info\<close> points to a \<open>struct blockdev_rbd_pool_info\<close>,
  which holds a name only: the name stands for it.
\<close>

record blockdev_rbd =
  disk :: spdk_bdev
  rbd_name :: string
  info :: rbd_image_info_t
  pool_info :: string

subsection \<open>Channel lifecycle\<close>

text \<open>
  \<open>blockdev_rbd_create_cb\<close>: \<open>arg\<close> is the address of the channel context \<open>ctx_buf\<close>,
  which the framework has allocated, and \<open>dev\<close> the device \<open>io_device\<close> points to.
\<close>

definition blockdev_rbd_create_cb ::
    "rados_backend \<Rightarrow> blockdev_rbd \<Rightarrow> addr \<Rightarrow> rbd_state \<Rightarrow> fault + (32 word \<times> rbd_state)" where
  "blockdev_rbd_create_cb be dev arg st =
     (case chans st arg of
        None \<Rightarrow> Inl InvalidPointer
      | Some c0 \<Rightarrow>
          let c1 = c0\<lparr>req_head := None, image := False, io_ctx := False\<rparr> in
          (case blockdev_rados_context_init be (pool_info dev) (cluster c1) (io_ctx c1) of
             (ret, cl, io, es) \<Rightarrow>
               let c2 = c1\<lparr>cluster := cl, io_ctx := io\<rparr>;
                   st2 = emit es (st\<lparr>chans := (chans st)(arg \<mapsto> c2)\<rparr>)
               in if sint ret < 0 then Inr (- 1, st2)
                  else if sint (rbd_open_ret be) < 0
                  then Inr (- 1, emit [RbdOpen (rbd_name dev)] st2)
                  else Inr (0, emit [RbdOpen (rbd_name dev), MutexInit arg, SpdkPollerRegister arg]
                                 (st2\<lparr>chans := (chans st2)(arg \<mapsto> c2\<lparr>image := True\<rparr>)\<rparr>))))"

text \<open>\<open>blockdev_rbd_exit\<close>, as the calls it makes.\<close>

definition blockdev_rbd_exit :: "event list" where
  "blockdev_rbd_exit = [RbdFlush, RbdClose]"

definition blockdev_rbd_destroy_cb :: "addr \<Rightarrow> rbd_state \<Rightarrow> fault + rbd_state" where
  "blockdev_rbd_destroy_cb arg st =
     (case chans st arg of
        None \<Rightarrow> Inl InvalidPointer
      | Some io_channel \<Rightarrow>
          Inr (emit ((if image io_channel then blockdev_rbd_exit else [])
                     @ (if io_ctx io_channel then [RadosIoctxDestroy] else [])
                     @ (if cluster io_channel then [RadosShutdown] else [])
                     @ [SpdkPollerUnregister arg]) st))"

subsection \<open>Library initialisation\<close>

text \<open>
  The C library's \<open>%d\<close> and \<open>strtol(s, NULL, 10)\<close>. \<open>strtol\<close> skips white space, reads
  an optional sign and the decimal digits that follow, and gives the value, clamped to
  the range of \<open>long\<close>; with no digit it gives 0.
\<close>

function dec_nat :: "nat \<Rightarrow> string" where
  "dec_nat n =
     (if n < 10 then [char_of (48 + n)]
      else dec_nat (n div 10) @ [char_of (48 + n mod 10)])"
  by pat_completeness auto
termination
  by (relation "measure id") auto

declare dec_nat.simps [simp del]

definition printf_d :: "int \<Rightarrow> string" where
  "printf_d i = (if i < 0 then CHR ''-'' # dec_nat (nat (- i)) else dec_nat (nat i))"

definition c_isspace :: "char \<Rightarrow> bool" where
  "c_isspace c = (c = CHR '' '' \<or> ((9 :: nat) \<le> of_char c \<and> (of_char c :: nat) \<le> 13))"

definition c_isdigit :: "char \<Rightarrow> bool" where
  "c_isdigit c = ((48 :: nat) \<le> of_char c \<and> (of_char c :: nat) \<le> 57)"

definition digits_value :: "string \<Rightarrow> int" where
  "digits_value ds = foldl (\<lambda>acc c. acc * 10 + (int (of_char c) - 48)) 0 ds"

definition strtol :: "string \<Rightarrow> int" where
  "strtol s =
     (let s1 = dropWhile c_isspace s;
          neg = (s1 \<noteq> [] \<and> hd s1 = CHR ''-'');
          s2 = (if s1 \<noteq> [] \<and> (hd s1 = CHR ''-'' \<or> hd s1 = CHR ''+'') then tl s1 else s1);
          v = digits_value (takeWhile c_isdigit s2)
      in if neg then max (- (2 ^ 63)) (- v) else min (2 ^ 63 - 1) v)"

text \<open>
  Modelled from the spec: the configuration reader (\<open>spdk_conf_find_section\<close>,
  \<open>spdk_conf_section_get_nval\<close>, \<open>spdk_conf_section_get_nmval\<close> of lib/conf, which is not
  among the sources). The \<open>Ceph\<close> section is the list of its \<open>Ceph\<close> lines, each the list
  of its values: pool name, volume name and an optional block size.
  \<open>spdk_conf_section_get_nmval sp i j\<close> is value \<open>j\<close> of line \<open>i\<close> and \<open>NULL\<close> when
  there is none; \<open>spdk_conf_section_get_nval sp i\<close> is the first value of line \<open>i\<close>.
\<close>

type_synonym spdk_conf_section = "string list list"

definition spdk_conf_section_get_nmval :: "spdk_conf_section \<Rightarrow> nat \<Rightarrow> nat \<Rightarrow> string option" where
  "spdk_conf_section_get_nmval sp idx1 idx2 =
     (if idx1 < length sp \<and> idx2 < length (sp ! idx1) then Some (sp ! idx1 ! idx2) else None)"

definition spdk_conf_section_get_nval :: "spdk_conf_section \<Rightarrow> nat \<Rightarrow> string option" where
  "spdk_conf_section_get_nval sp idx = spdk_conf_section_get_nmval sp idx 0"

text \<open>
  The surroundings of one initialisation: whether the \<open>n\<close>-th call of \<open>calloc\<close> (counted
  from 0) succeeds, what the backend answers to the bootstrap made for configuration line
  \<open>i\<close>, and the two name lengths \<open>SPDK_BDEV_MAX_NAME_LENGTH\<close> and
  \<open>SPDK_BDEV_MAX_PRODUCT_NAME_LENGTH\<close> of spdk/bdev.h.
\<close>

record lib_env =
  calloc_ok :: "nat \<Rightarrow> bool"
  backend :: "nat \<Rightarrow> rados_backend"
  max_name_length :: nat
  max_product_name_length :: nat

text \<open>
  The globals \<open>g_rbd_pools\<close>, \<open>g_rbds\<close> and \<open>blockdev_rbd_count\<close>, the number of
  \<open>calloc\<close> calls made so far, and the trace.
\<close>

record lib_state =
  g_rbd_pools :: "string list"
  g_rbds :: "blockdev_rbd list"
  blockdev_rbd_count :: "32 word"
  n_calloc :: nat
  lib_trace :: "event list"

text \<open>\<open>snprintf(buf, n, ...)\<close> stores at most \<open>n - 1\<close> characters.\<close>

definition snprintf :: "nat \<Rightarrow> string \<Rightarrow> string" where
  "snprintf n s = take (n - 1) s"

text \<open>
  \<open>blockdev_create_rbd_disk\<close>. The division \<open>disk->info.size / disk->disk.blocklen\<close> is
  a 64-bit unsigned one, which traps on a zero divisor.
\<close>

definition blockdev_create_rbd_disk ::
    "lib_env \<Rightarrow> blockdev_rbd \<Rightarrow> 32 word \<Rightarrow> lib_state \<Rightarrow> fault + (32 word \<times> blockdev_rbd \<times> lib_state)" where
  "blockdev_create_rbd_disk env rbd block_size st =
     (let b1 = (disk rbd)\<lparr>name :=
                             snprintf (max_name_length env)
                               (''Ceph'' @ printf_d (sint (blockdev_rbd_count st))),
                           product_name := snprintf (max_product_name_length env) ''Ceph rbd''\<rparr>;
          st1 = st\<lparr>blockdev_rbd_count := blockdev_rbd_count st + 1\<rparr>;
          b2 = b1\<lparr>write_cache := 0, blocklen := block_size\<rparr>
      in if blocklen b2 = 0 then Inl DivideByZero
         else Inr (0, rbd\<lparr>disk := b2\<lparr>blockcnt := info_size (info rbd) div ucast (blocklen b2)\<rparr>\<rparr>,
                   st1))"

definition blockdev_rbd_library_fini :: "lib_state \<Rightarrow> lib_state" where
  "blockdev_rbd_library_fini st = st\<lparr>g_rbds := [], g_rbd_pools := []\<rparr>"

text \<open>\<open>blockdev_rbd_pool_info_init\<close>: the pool record found or made, \<open>None\<close> for \<open>NULL\<close>.\<close>

definition blockdev_rbd_pool_info_init ::
    "lib_env \<Rightarrow> string \<Rightarrow> lib_state \<Rightarrow> string option \<times> lib_state" where
  "blockdev_rbd_pool_info_init env rbd_pool_name st =
     (case find (\<lambda>nm. nm = rbd_pool_name) (g_rbd_pools st) of
        Some nm \<Rightarrow> (Some nm, st)
      | None \<Rightarrow>
          let st1 = st\<lparr>n_calloc := n_calloc st + 1\<rparr> in
          if \<not> calloc_ok env (n_calloc st) then (None, st1)
          else (Some rbd_pool_name, st1\<lparr>g_rbd_pools := g_rbd_pools st1 @ [rbd_pool_name]\<rparr>))"

text \<open>
  Lines 538 to 549 of \<open>blockdev_rbd_library_init\<close>: the block size of a line, \<open>None\<close>
  when the line is refused. \<open>(int)strtol(val, NULL, 10)\<close> stored in the \<open>uint32_t\<close> keeps
  the low 32 bits.
\<close>

definition conf_block_size :: "string option \<Rightarrow> 32 word option" where
  "conf_block_size val =
     (case val of
        None \<Rightarrow> Some 512
      | Some v \<Rightarrow>
          let block_size = (word_of_int (strtol v) :: 32 word) in
          if block_size AND 0x1ff \<noteq> 0 then None else Some block_size)"

text \<open>
  The exit through the label \<open>cleanup\<close>, and the \<open>for (i = 0; ; i++)\<close> loop of
  \<open>blockdev_rbd_library_init\<close>, from line \<open>i\<close> on. \<open>calloc\<close> gives a device
  record filled with zeros; the local \<open>rbd_name\<close> is \<open>rbdname\<close> here.
\<close>

definition cleanup :: "lib_state \<Rightarrow> fault + (32 word \<times> lib_state)" where
  "cleanup st = Inr (- 1, blockdev_rbd_library_fini st)"

function library_init_loop ::
    "lib_env \<Rightarrow> spdk_conf_section \<Rightarrow> nat \<Rightarrow> lib_state \<Rightarrow> fault + (32 word \<times> lib_state)" where
  "library_init_loop env sp i st =
     (if spdk_conf_section_get_nval sp i = None then Inr (0, st)
      else
        (case spdk_conf_section_get_nmval sp i 0 of
           None \<Rightarrow> cleanup st
         | Some val \<Rightarrow>
             (case blockdev_rbd_pool_info_init env val st of
                (None, st1) \<Rightarrow> cleanup st1
              | (Some pool, st1) \<Rightarrow>
                  (case spdk_conf_section_get_nmval sp i 1 of
                     None \<Rightarrow> cleanup st1
                   | Some rbdname \<Rightarrow>
                       (case conf_block_size (spdk_conf_section_get_nmval sp i 2) of
                          None \<Rightarrow> cleanup st1
                        | Some block_size \<Rightarrow>
                            let st2 = st1\<lparr>n_calloc := n_calloc st1 + 1\<rparr> in
                            if \<not> calloc_ok env (n_calloc st1) then cleanup st2
                            else
                              let rbd = \<lparr>disk = \<lparr>name = [], product_name = [],
                                                 write_cache = 0, blocklen = 0, blockcnt = 0\<rparr>,
                                         rbd_name = rbdname,
                                         info = \<lparr>info_size = 0\<rparr>, pool_info = pool\<rparr>
                              in (case blockdev_rbd_init (backend env i) pool rbdname (info rbd) of
                                    (ret, info1, es) \<Rightarrow>
                                      let st3 = st2\<lparr>lib_trace := lib_trace st2 @ es\<rparr> in
                                      if sint ret < 0 then cleanup st3
                                      else
                                        (case blockdev_create_rbd_disk env (rbd\<lparr>info := info1\<rparr>)
                                                block_size st3 of
                                           Inl f \<Rightarrow> Inl f
                                         | Inr (ret1, rbd1, st4) \<Rightarrow>
                                             if sint ret1 < 0 then cleanup st4
                                             else
                                               library_init_loop env sp (i + 1)
                                                 (st4\<lparr>g_rbds := g_rbds st4 @ [rbd1],
                                                      lib_trace := lib_trace st4 @
                                                        [SpdkIoDeviceRegister (name (disk rbd1)),
                                                         SpdkBdevRegister (name (disk rbd1))]\<rparr>))))))))"
  by pat_completeness auto
termination
proof (relation "measure (\<lambda>(env, sp, i, st). length sp - i)")
  show "wf (measure (\<lambda>(env, sp, i, st). length sp - i))" by simp
next
  fix env :: lib_env and sp :: spdk_conf_section and i :: nat and st :: lib_state
  assume "spdk_conf_section_get_nval sp i \<noteq> None"
  then have "i < length sp"
    by (simp add: spdk_conf_section_get_nval_def spdk_conf_section_get_nmval_def split: if_splits)
  then show "\<And>st'. ((env, sp, i + 1, st'), (env, sp, i, st))
                \<in> measure (\<lambda>(env, sp, i, st). length sp - i)"
    by simp
qed

declare library_init_loop.simps [simp del]

text \<open>\<open>blockdev_rbd_library_init\<close>: \<open>sp\<close> is what \<open>spdk_conf_find_section\<close> gives.\<close>

definition blockdev_rbd_library_init ::
    "lib_env \<Rightarrow> spdk_conf_section option \<Rightarrow> lib_state \<Rightarrow> fault + (32 word \<times> lib_state)" where
  "blockdev_rbd_library_init env sp st =
     (case sp of
        None \<Rightarrow> Inr (0, st)
      | Some sec \<Rightarrow> library_init_loop env sec 0 st)"

section \<open>Notions used in the statements\<close>

text \<open>
  \<open>inbox h p as\<close>: in the request store \<open>h\<close>, the \<open>next\<close> pointers lead from \<open>p\<close>
  through exactly the requests \<open>as\<close>, in this order, to \<open>NULL\<close>.
\<close>

fun inbox :: "(addr \<rightharpoonup> blockdev_rbd_io) \<Rightarrow> addr option \<Rightarrow> addr list \<Rightarrow> bool" where
  "inbox h p [] = (p = None)"
| "inbox h p (a # as) =
     (p = Some a \<and> (case h a of None \<Rightarrow> False | Some r \<Rightarrow> inbox h (io_next r) as))"

text \<open>The completion that reports request \<open>a\<close> with the status it has in the store \<open>h\<close>.\<close>

definition delivery :: "(addr \<rightharpoonup> blockdev_rbd_io) \<Rightarrow> addr \<Rightarrow> event" where
  "delivery h a =
     SpdkBdevIoComplete a
       (if map_option status (h a) = Some 0 then SPDK_BDEV_IO_STATUS_SUCCESS
        else SPDK_BDEV_IO_STATUS_FAILED)"

text \<open>
  The backend calls the completion callback for the requests of \<open>cbs\<close>, one after the
  other, each with its return value.
\<close>

fun finish_aiocbs :: "(addr \<times> 32 word) list \<Rightarrow> rbd_state \<Rightarrow> fault + rbd_state" where
  "finish_aiocbs [] st = Inr st"
| "finish_aiocbs ((a, rv) # cbs) st =
     (case blockdev_rbd_finish_aiocb a rv st of
        Inl f \<Rightarrow> Inl f
      | Inr st' \<Rightarrow> finish_aiocbs cbs st')"

text \<open>A request that is allocated and whose \<open>ch\<close> points to an allocated channel.\<close>

definition valid_req :: "rbd_state \<Rightarrow> addr \<Rightarrow> bool" where
  "valid_req st a = (case ios st a of None \<Rightarrow> False | Some r \<Rightarrow> chans st (ch r) \<noteq> None)"

text \<open>The requests of \<open>cbs\<close> that belong to channel \<open>c\<close>, in the order of \<open>cbs\<close>.\<close>

definition pushed_on :: "addr \<Rightarrow> rbd_state \<Rightarrow> (addr \<times> 32 word) list \<Rightarrow> addr list" where
  "pushed_on c st cbs = map fst (filter (\<lambda>(a, rv). map_option ch (ios st a) = Some c) cbs)"

text \<open>The status field of request \<open>a\<close> in the state an operation has produced.\<close>

definition status_in :: "fault + rbd_state \<Rightarrow> addr \<Rightarrow> 32 word option" where
  "status_in res a = (case res of Inl f \<Rightarrow> None | Inr st \<Rightarrow> map_option status (ios st a))"

text \<open>The value the callback stores in \<open>cmd->status\<close>, for the proofs about sequences of callbacks.\<close>

definition fin_status :: "blockdev_rbd_io \<Rightarrow> 32 word \<Rightarrow> 32 word" where
  "fin_status r rv =
     (if direction r = BLOCKDEV_RBD_READ
      then (if (ucast (len r) :: 32 word) = rv then 0 else - 1)
      else (if rv = 0 then 0 else - 1))"

text \<open>
  \<open>completes_unlocked held es\<close>: in the trace \<open>es\<close>, entered with the channel lock held or
  not, every framework completion happens while the lock is not held.
\<close>

fun completes_unlocked :: "bool \<Rightarrow> event list \<Rightarrow> bool" where
  "completes_unlocked held [] = True"
| "completes_unlocked held (MutexLock c # es) = completes_unlocked True es"
| "completes_unlocked held (MutexUnlock c # es) = completes_unlocked False es"
| "completes_unlocked held (SpdkBdevIoComplete a s # es) = (\<not> held \<and> completes_unlocked held es)"
| "completes_unlocked held (e # es) = completes_unlocked held es"

text \<open>One configuration line on its own, answered by the backend as line \<open>i\<close> is.\<close>

definition init_line ::
    "lib_env \<Rightarrow> string list \<Rightarrow> nat \<Rightarrow> lib_state \<Rightarrow> fault + (32 word \<times> lib_state)" where
  "init_line env line i st = library_init_loop (env\<lparr>backend := \<lambda>k. backend env i\<rparr>) [line] 0 st"

subsection \<open>Concrete inputs\<close>

text \<open>One open channel at address 100 with an empty inbox, and the requests \<open>rs\<close>.\<close>

definition ex_chan :: blockdev_rbd_io_channel where
  "ex_chan = \<lparr>io_ctx = True, cluster = True, image = True, req_head = None\<rparr>"

definition ex_io :: "blockdev_rbd_data_direction \<Rightarrow> 64 word \<Rightarrow> blockdev_rbd_io" where
  "ex_io d n = \<lparr>direction = d, status = 1, len = n, completion = True, ch = 100, io_next = None\<rparr>"

definition ex_state :: "(addr \<times> blockdev_rbd_io) list \<Rightarrow> rbd_state" where
  "ex_state rs = \<lparr>ios = map_of rs, chans = [100 \<mapsto> ex_chan], trace = []\<rparr>"

text \<open>
  Three requests on that channel, a read of 4096 bytes, a write and another read of 4096
  bytes, and the callbacks that complete them: 4096 bytes read, status 0, error -5.
\<close>

definition ex_reqs :: rbd_state where
  "ex_reqs =
     ex_state [(1, ex_io BLOCKDEV_RBD_READ 4096), (2, ex_io BLOCKDEV_RBD_WRITE 512),
               (3, ex_io BLOCKDEV_RBD_READ 4096)]"

definition ex_cbs :: "(addr \<times> 32 word) list" where
  "ex_cbs = [(1, 4096), (2, 0), (3, - 5)]"

text \<open>A backend on which every call succeeds, with a volume of \<open>n\<close> bytes.\<close>

definition ok_backend :: "64 word \<Rightarrow> rados_backend" where
  "ok_backend n =
     \<lparr>rados_create_ret = 0, rados_conf_read_file_ret = 0, rados_connect_ret = 0,
      rados_ioctx_create_ret = 0, rbd_open_ret = 0, rbd_stat_ret = 0, rbd_stat_size = n\<rparr>"

definition ok_aio :: aio_backend where
  "ok_aio = \<lparr>aio_create_completion_ret = 0, aio_read_ret = 0, aio_write_ret = 0\<rparr>"

definition ex_env :: "(nat \<Rightarrow> rados_backend) \<Rightarrow> lib_env" where
  "ex_env b =
     \<lparr>calloc_ok = (\<lambda>n. True), backend = b, max_name_length = 16, max_product_name_length = 50\<rparr>"

definition lib_state0 :: lib_state where
  "lib_state0 =
     \<lparr>g_rbd_pools = [], g_rbds = [], blockdev_rbd_count = 0, n_calloc = 0, lib_trace = []\<rparr>"

text \<open>
  Three configured devices of pool \<open>rbd\<close>; for the second one the cluster session cannot
  be created.
\<close>

definition ex_conf3 :: spdk_conf_section where
  "ex_conf3 = [[''rbd'', ''vol0''], [''rbd'', ''vol1''], [''rbd'', ''vol2'']]"

definition ex_backend3 :: "nat \<Rightarrow> rados_backend" where
  "ex_backend3 i = (if i = 1 then (ok_backend 1048576)\<lparr>rados_create_ret := - 1\<rparr>
                    else ok_backend 1048576)"

text \<open>A write of 1024 bytes in two segments of 512 bytes.\<close>

definition ex_write2 :: spdk_bdev_io where
  "ex_write2 =
     \<lparr>io_type = SPDK_BDEV_IO_TYPE_WRITE, io_ch = 100, driver_ctx = 1,
      u_read_nbytes = 0, u_read_offset = 0,
      u_write_iovs = [\<lparr>iov_base = 0x1000, iov_len = 512\<rparr>, \<lparr>iov_base = 0x3000, iov_len = 512\<rparr>],
      u_write_iovcnt = 2, u_write_len = 1024, u_write_offset = 0\<rparr>"

section \<open>The completion inbox\<close>

lemma io_poll_loop_inbox:
  "inbox (ios st) p as \<Longrightarrow>
   io_poll_loop p st = Some (Inr (emit (map (delivery (ios st)) as) st))"
proof (induction as arbitrary: p st)
  case Nil
  then show ?case by (subst io_poll_loop.simps) (simp add: emit_def)
next
  case (Cons a as)
  then obtain r where r: "p = Some a" "ios st a = Some r" "inbox (ios st) (io_next r) as"
    by (auto split: option.splits)
  let ?e = "SpdkBdevIoComplete a (if status r = 0 then SPDK_BDEV_IO_STATUS_SUCCESS else SPDK_BDEV_IO_STATUS_FAILED)"
  have "inbox (ios (emit [?e] st)) (io_next r) as" using r by (simp add: emit_def)
  from Cons.IH[OF this] have "io_poll_loop (io_next r) (emit [?e] st) =
       Some (Inr (emit (map (delivery (ios st)) as) (emit [?e] st)))"
    by (simp add: emit_def)
  then show ?case using r
    by (subst io_poll_loop.simps) (simp add: emit_def delivery_def)
qed

lemma inbox_upd_other: "a \<notin> set as \<Longrightarrow> inbox (h(a \<mapsto> r)) p as = inbox h p as"
  by (induction as arbitrary: p) (auto split: option.splits)

lemma io_poll_inbox:
  assumes "chans st c = Some k" and "inbox (ios st) (req_head k) as"
  shows "blockdev_rbd_io_poll c st =
           Some (Inr (st\<lparr>chans := (chans st)(c \<mapsto> k\<lparr>req_head := None\<rparr>),
                         trace := trace st @ [MutexLock c] @ map (delivery (ios st)) as
                                    @ [MutexUnlock c]\<rparr>))"
proof -
  let ?st0 = "(emit [MutexLock c] st)\<lparr>chans := (chans st)(c \<mapsto> k\<lparr>req_head := None\<rparr>)\<rparr>"
  have "inbox (ios ?st0) (req_head k) as" using assms(2) by (simp add: emit_def)
  from io_poll_loop_inbox[OF this]
  have "io_poll_loop (req_head k) ?st0 = Some (Inr (emit (map (delivery (ios st)) as) ?st0))"
    by (simp add: emit_def)
  then show ?thesis using assms(1)
    by (simp add: blockdev_rbd_io_poll_def emit_def)
qed

lemma finish_aiocb_step:
  assumes "ios st a = Some r" and "chans st (ch r) = Some k"
  shows "blockdev_rbd_finish_aiocb a rv st =
           Inr \<lparr>ios = (ios st)(a \<mapsto> r\<lparr>status := fin_status r rv, io_next := req_head k\<rparr>),
                chans = (chans st)(ch r \<mapsto> k\<lparr>req_head := Some a\<rparr>),
                trace = trace st @ [RbdAioRelease, MutexLock (ch r), MutexUnlock (ch r)]\<rparr>"
  using assms
  by (simp add: blockdev_rbd_finish_aiocb_def fin_status_def emit_def Let_def)

lemma finish_aiocbs_inbox:
  assumes "chans st c = Some k" and "inbox (ios st) (req_head k) as0"
    and "distinct (map fst cbs)" and "set as0 \<inter> fst ` set cbs = {}"
    and "\<forall>x \<in> set cbs. valid_req st (fst x)"
  shows "\<exists>st1 k1. finish_aiocbs cbs st = Inr st1 \<and> chans st1 c = Some k1
           \<and> inbox (ios st1) (req_head k1) (rev (pushed_on c st cbs) @ as0)
           \<and> (\<forall>a. a \<notin> fst ` set cbs \<longrightarrow> ios st1 a = ios st a)
           \<and> (\<forall>(a, rv) \<in> set cbs. \<exists>r r1. ios st a = Some r \<and> ios st1 a = Some r1
                   \<and> status r1 = fin_status r rv)"
  using assms
proof (induction cbs arbitrary: st k as0)
  case Nil
  then show ?case by (simp add: pushed_on_def)
next
  case (Cons x cbs)
  obtain a rv where x: "x = (a, rv)" by (cases x)
  from Cons.prems(5) x obtain r k' where r: "ios st a = Some r" "chans st (ch r) = Some k'"
    by (auto simp: valid_req_def split: option.splits)
  define st' where "st' = \<lparr>ios = (ios st)(a \<mapsto> r\<lparr>status := fin_status r rv, io_next := req_head k'\<rparr>),
                chans = (chans st)(ch r \<mapsto> k'\<lparr>req_head := Some a\<rparr>),
                trace = trace st @ [RbdAioRelease, MutexLock (ch r), MutexUnlock (ch r)]\<rparr>"
  define k2 where "k2 = (if ch r = c then k\<lparr>req_head := Some a\<rparr> else k)"
  define as2 where "as2 = (if ch r = c then a # as0 else as0)"
  have step: "blockdev_rbd_finish_aiocb a rv st = Inr st'"
    unfolding st'_def by (rule finish_aiocb_step[OF r])
  have a_notin: "a \<notin> set as0" "a \<notin> fst ` set cbs"
    using Cons.prems(3,4) x by auto
  have ios_other: "\<And>b. b \<noteq> a \<Longrightarrow> ios st' b = ios st b" by (simp add: st'_def)
  have valid': "\<forall>y \<in> set cbs. valid_req st' (fst y)"
  proof
    fix y assume y: "y \<in> set cbs"
    then have "fst y \<noteq> a" using a_notin by auto
    moreover have "valid_req st (fst y)" using Cons.prems(5) y by simp
    ultimately show "valid_req st' (fst y)"
      by (auto simp: valid_req_def st'_def split: option.splits)
  qed
  have dist': "distinct (map fst cbs)" using Cons.prems(3) by simp
  have pushed': "pushed_on c st' cbs = pushed_on c st cbs"
  proof -
    have "filter (\<lambda>(b, rv). map_option ch (ios st' b) = Some c) cbs
        = filter (\<lambda>(b, rv). map_option ch (ios st b) = Some c) cbs"
    proof (rule filter_cong[OF refl])
      fix y assume "y \<in> set cbs"
      then have "fst y \<noteq> a" using a_notin by force
      then show "(case y of (b, rv) \<Rightarrow> map_option ch (ios st' b) = Some c)
               = (case y of (b, rv) \<Rightarrow> map_option ch (ios st b) = Some c)"
        by (cases y) (simp add: ios_other)
    qed
    then show ?thesis by (simp add: pushed_on_def)
  qed
  have ch': "chans st' c = Some k2"
    using r Cons.prems(1) by (auto simp: st'_def k2_def)
  have inb': "inbox (ios st') (req_head k2) as2"
  proof (cases "ch r = c")
    case True
    then have "k' = k" using r Cons.prems(1) by simp
    then show ?thesis
      using True a_notin Cons.prems(2) by (simp add: st'_def k2_def as2_def inbox_upd_other)
  next
    case False
    then show ?thesis
      using a_notin Cons.prems(2) by (simp add: st'_def k2_def as2_def inbox_upd_other)
  qed
  have disj': "set as2 \<inter> fst ` set cbs = {}"
    using Cons.prems(4) a_notin by (auto simp: as2_def)
  from Cons.IH[OF ch' inb' dist' disj' valid']
  obtain st1 k1 where IH: "finish_aiocbs cbs st' = Inr st1" "chans st1 c = Some k1"
    "inbox (ios st1) (req_head k1) (rev (pushed_on c st' cbs) @ as2)"
    "\<forall>b. b \<notin> fst ` set cbs \<longrightarrow> ios st1 b = ios st' b"
    "\<forall>(b, rv) \<in> set cbs. \<exists>r r1. ios st' b = Some r \<and> ios st1 b = Some r1
                 \<and> status r1 = fin_status r rv"
    by blast
  have p: "rev (pushed_on c st (x # cbs)) @ as0 = rev (pushed_on c st cbs) @ as2"
    using r x by (simp add: pushed_on_def as2_def)
  have 1: "finish_aiocbs (x # cbs) st = Inr st1" using step IH(1) x by simp
  have 3: "inbox (ios st1) (req_head k1) (rev (pushed_on c st (x # cbs)) @ as0)"
    using IH(3) p pushed' by simp
  have 4: "\<forall>b. b \<notin> fst ` set (x # cbs) \<longrightarrow> ios st1 b = ios st b"
    using IH(4) ios_other x by auto
  have 5: "\<forall>(b, rv) \<in> set (x # cbs). \<exists>r r1. ios st b = Some r \<and> ios st1 b = Some r1
                 \<and> status r1 = fin_status r rv"
  proof -
    have "ios st1 a = ios st' a" using IH(4) a_notin by simp
    then have "\<exists>r r1. ios st a = Some r \<and> ios st1 a = Some r1 \<and> status r1 = fin_status r rv"
      using r by (simp add: st'_def)
    moreover have "\<forall>(b, rv) \<in> set cbs. \<exists>r r1. ios st b = Some r \<and> ios st1 b = Some r1
                 \<and> status r1 = fin_status r rv"
    proof (clarify)
      fix b rvb assume m: "(b, rvb) \<in> set cbs"
      then have "b \<noteq> a" using a_notin by force
      then show "\<exists>r r1. ios st b = Some r \<and> ios st1 b = Some r1 \<and> status r1 = fin_status r rvb"
        using IH(5) m ios_other by fastforce
    qed
    ultimately show ?thesis using x by simp
  qed
  show ?case using 1 IH(2) 3 4 5 by blast
qed

text \<open>
  C1. From a channel \<open>c\<close> with an empty inbox, let the completion callback run for the
  distinct requests of \<open>cbs\<close>. Every callback returns, and one drain of \<open>c\<close> by the poller
  returns and completes exactly the requests of \<open>cbs\<close> that belong to \<open>c\<close>, each once, the
  last pushed first: the drain empties the head and walks the detached list. The status a
  request has when it is delivered is the one its callback stored, 0 or -1, and it is
  delivered as success if and only if that status is 0.
\<close>

theorem inbox_delivered_exactly_once:
  assumes "chans st c = Some k" and "req_head k = None"
    and "distinct (map fst cbs)" and "\<forall>x \<in> set cbs. valid_req st (fst x)"
  shows "\<exists>st1 st2.
           finish_aiocbs cbs st = Inr st1
         \<and> blockdev_rbd_io_poll c st1 = Some (Inr st2)
         \<and> trace st2 = trace st1 @ [MutexLock c]
                         @ map (delivery (ios st1)) (rev (pushed_on c st cbs)) @ [MutexUnlock c]
         \<and> distinct (pushed_on c st cbs)
         \<and> (\<forall>(a, rv) \<in> set cbs.
               status_in (Inr st1) a = status_in (blockdev_rbd_finish_aiocb a rv st) a
             \<and> (status_in (Inr st1) a = Some 0 \<or> status_in (Inr st1) a = Some (- 1)))
         \<and> map_option req_head (chans st2 c) = Some None
         \<and> ios st2 = ios st1"
proof -
  have inb0: "inbox (ios st) (req_head k) []" using assms(2) by simp
  have "set [] \<inter> fst ` set cbs = {}" by simp
  from finish_aiocbs_inbox[OF assms(1) inb0 assms(3) this assms(4)]
  obtain st1 k1 where f: "finish_aiocbs cbs st = Inr st1" "chans st1 c = Some k1"
    "inbox (ios st1) (req_head k1) (rev (pushed_on c st cbs))"
    "\<forall>(a, rv) \<in> set cbs. \<exists>r r1. ios st a = Some r \<and> ios st1 a = Some r1
                   \<and> status r1 = fin_status r rv"
    by auto
  define st2 where "st2 = st1\<lparr>chans := (chans st1)(c \<mapsto> k1\<lparr>req_head := None\<rparr>),
       trace := trace st1 @ [MutexLock c] @ map (delivery (ios st1)) (rev (pushed_on c st cbs))
                  @ [MutexUnlock c]\<rparr>"
  have p: "blockdev_rbd_io_poll c st1 = Some (Inr st2)"
    unfolding st2_def by (rule io_poll_inbox[OF f(2,3)])
  have d: "distinct (pushed_on c st cbs)"
    unfolding pushed_on_def using assms(3) by (rule distinct_map_filter)
  have s: "\<forall>(a, rv) \<in> set cbs.
               status_in (Inr st1) a = status_in (blockdev_rbd_finish_aiocb a rv st) a
             \<and> (status_in (Inr st1) a = Some 0 \<or> status_in (Inr st1) a = Some (- 1))"
  proof (clarify)
    fix a rv assume m: "(a, rv) \<in> set cbs"
    with f(4) obtain r r1 where r: "ios st a = Some r" "ios st1 a = Some r1"
      "status r1 = fin_status r rv" by fastforce
    from assms(4) m r(1) obtain k' where k': "chans st (ch r) = Some k'"
      by (fastforce simp: valid_req_def)
    have 1: "status_in (Inr st1) a = Some (fin_status r rv)"
      using r by (simp add: status_in_def)
    have 2: "status_in (blockdev_rbd_finish_aiocb a rv st) a = Some (fin_status r rv)"
      by (simp add: finish_aiocb_step[OF r(1) k'] status_in_def)
    have 3: "fin_status r rv = 0 \<or> fin_status r rv = - 1" by (simp add: fin_status_def)
    show "status_in (Inr st1) a = status_in (blockdev_rbd_finish_aiocb a rv st) a
             \<and> (status_in (Inr st1) a = Some 0 \<or> status_in (Inr st1) a = Some (- 1))"
      using 1 2 3 by auto
  qed
  have "trace st2 = trace st1 @ [MutexLock c]
                         @ map (delivery (ios st1)) (rev (pushed_on c st cbs)) @ [MutexUnlock c]"
    "map_option req_head (chans st2 c) = Some None" "ios st2 = ios st1"
    by (simp_all add: st2_def)
  with f(1) p d s show ?thesis by blast
qed

theorem inbox_delivered_exactly_once_witness:
  "chans ex_reqs 100 = Some ex_chan \<and> req_head ex_chan = None \<and> distinct (map fst ex_cbs)
   \<and> valid_req ex_reqs 1 \<and> valid_req ex_reqs 2 \<and> valid_req ex_reqs 3
   \<and> (\<exists>st1 st2. finish_aiocbs ex_cbs ex_reqs = Inr st1
         \<and> blockdev_rbd_io_poll 100 st1 = Some (Inr st2)
         \<and> trace st2 = trace st1 @
             [MutexLock 100,
              SpdkBdevIoComplete 3 SPDK_BDEV_IO_STATUS_FAILED,
              SpdkBdevIoComplete 2 SPDK_BDEV_IO_STATUS_SUCCESS,
              SpdkBdevIoComplete 1 SPDK_BDEV_IO_STATUS_SUCCESS,
              MutexUnlock 100])"
proof -
  have h: "chans ex_reqs 100 = Some ex_chan" "req_head ex_chan = None"
    "distinct (map fst ex_cbs)" "\<forall>x \<in> set ex_cbs. valid_req ex_reqs (fst x)"
    by (simp_all add: ex_reqs_def ex_cbs_def ex_state_def ex_chan_def ex_io_def valid_req_def)
  from inbox_delivered_exactly_once[OF h]
  obtain st1 st2 where r: "finish_aiocbs ex_cbs ex_reqs = Inr st1"
    "blockdev_rbd_io_poll 100 st1 = Some (Inr st2)"
    "trace st2 = trace st1 @ [MutexLock 100]
        @ map (delivery (ios st1)) (rev (pushed_on 100 ex_reqs ex_cbs)) @ [MutexUnlock 100]"
    "\<forall>(a, rv) \<in> set ex_cbs.
        status_in (Inr st1) a = status_in (blockdev_rbd_finish_aiocb a rv ex_reqs) a"
    by blast
  have p: "pushed_on 100 ex_reqs ex_cbs = [1, 2, 3]"
    by (simp add: pushed_on_def ex_reqs_def ex_cbs_def ex_state_def ex_io_def)
  have s: "map_option status (ios st1 1) = Some 0" "map_option status (ios st1 2) = Some 0"
    "map_option status (ios st1 3) = Some (- 1)"
    using r(4)
    by (simp_all add: status_in_def ex_reqs_def ex_cbs_def ex_state_def ex_io_def ex_chan_def
        blockdev_rbd_finish_aiocb_def emit_def Let_def)
  have "trace st2 = trace st1 @
             [MutexLock 100,
              SpdkBdevIoComplete 3 SPDK_BDEV_IO_STATUS_FAILED,
              SpdkBdevIoComplete 2 SPDK_BDEV_IO_STATUS_SUCCESS,
              SpdkBdevIoComplete 1 SPDK_BDEV_IO_STATUS_SUCCESS,
              MutexUnlock 100]"
    using r(3) p s by (simp add: delivery_def)
  moreover have "valid_req ex_reqs 1 \<and> valid_req ex_reqs 2 \<and> valid_req ex_reqs 3"
    using h(4) by (simp add: ex_cbs_def)
  ultimately show ?thesis using h(1,2,3) r(1,2) by blast
qed

text \<open>
  C5, as the spec states it: the poller releases the channel lock before it walks the
  detached list, so that no completion is made while the lock is held. With one finished
  request in the inbox the drain locks, completes the request and only then unlocks.
\<close>

theorem io_poll_completes_under_lock_counterexample:
  "map_option (map_sum id trace)
     (blockdev_rbd_io_poll 100
        ((ex_state [(1, (ex_io BLOCKDEV_RBD_READ 4096)\<lparr>status := 0\<rparr>)])
           \<lparr>chans := [100 \<mapsto> ex_chan\<lparr>req_head := Some 1\<rparr>]\<rparr>))
     = Some (Inr [MutexLock 100, SpdkBdevIoComplete 1 SPDK_BDEV_IO_STATUS_SUCCESS, MutexUnlock 100])
   \<and> \<not> completes_unlocked False
         [MutexLock 100, SpdkBdevIoComplete 1 SPDK_BDEV_IO_STATUS_SUCCESS, MutexUnlock 100]"
  by (simp add: blockdev_rbd_io_poll_def io_poll_loop.simps ex_state_def ex_io_def ex_chan_def emit_def)

lemma completes_unlocked_deliveries:
  "completes_unlocked True (map (delivery h) as @ es) = (as = [] \<and> completes_unlocked True es)"
  by (cases as) (simp_all add: delivery_def)

text \<open>
  C5, amended. A drain of a well-formed inbox returns, and what it does is: lock the
  channel, set the inbox head to empty, complete every request of the detached list,
  unlock. Afterwards the head of the channel is \<open>NULL\<close>, the other channels and the
  requests are as they were, and the trace has grown by the lock, the completions and the
  unlock, in this order. The lock is held over the whole walk; no completion is made under
  the lock only when the inbox was empty.
\<close>

theorem io_poll_holds_lock_over_walk:
  assumes "chans st c = Some k" and "inbox (ios st) (req_head k) as"
  shows "\<exists>st'. blockdev_rbd_io_poll c st = Some (Inr st')
           \<and> trace st' = trace st @ [MutexLock c] @ map (delivery (ios st)) as @ [MutexUnlock c]
           \<and> completes_unlocked False (drop (length (trace st)) (trace st')) = (as = [])
           \<and> chans st' = (chans st)(c \<mapsto> k\<lparr>req_head := None\<rparr>)
           \<and> map_option req_head (chans st' c) = Some None
           \<and> ios st' = ios st"
proof -
  let ?st' = "st\<lparr>chans := (chans st)(c \<mapsto> k\<lparr>req_head := None\<rparr>),
                   trace := trace st @ [MutexLock c] @ map (delivery (ios st)) as
                              @ [MutexUnlock c]\<rparr>"
  have 1: "blockdev_rbd_io_poll c st = Some (Inr ?st')" by (rule io_poll_inbox[OF assms])
  have 2: "trace ?st' = trace st @ [MutexLock c] @ map (delivery (ios st)) as @ [MutexUnlock c]"
    by simp
  have 3: "completes_unlocked False (drop (length (trace st)) (trace ?st')) = (as = [])"
    by (simp add: completes_unlocked_deliveries)
  have 4: "chans ?st' = (chans st)(c \<mapsto> k\<lparr>req_head := None\<rparr>)"
    "map_option req_head (chans ?st' c) = Some None" "ios ?st' = ios st"
    by simp_all
  show ?thesis using 1 2 3 4 by blast
qed

theorem io_poll_holds_lock_over_walk_witness:
  "chans ((ex_state [(1, ex_io BLOCKDEV_RBD_WRITE 512)])\<lparr>chans := [100 \<mapsto> ex_chan\<lparr>req_head := Some 1\<rparr>]\<rparr>) 100
     = Some (ex_chan\<lparr>req_head := Some 1\<rparr>)
   \<and> inbox (map_of [(1, ex_io BLOCKDEV_RBD_WRITE 512)]) (Some 1) [1]
   \<and> (\<exists>st'. blockdev_rbd_io_poll 100
         ((ex_state [(1, ex_io BLOCKDEV_RBD_WRITE 512)])\<lparr>chans := [100 \<mapsto> ex_chan\<lparr>req_head := Some 1\<rparr>]\<rparr>)
          = Some (Inr st')
        \<and> trace st' = [MutexLock 100, SpdkBdevIoComplete 1 SPDK_BDEV_IO_STATUS_FAILED,
                        MutexUnlock 100]
        \<and> map_option req_head (chans st' 100) = Some None)"
proof -
  let ?st = "(ex_state [(1, ex_io BLOCKDEV_RBD_WRITE 512)])\<lparr>chans := [100 \<mapsto> ex_chan\<lparr>req_head := Some 1\<rparr>]\<rparr>"
  have h1: "chans ?st 100 = Some (ex_chan\<lparr>req_head := Some 1\<rparr>)" by simp
  have h2: "inbox (ios ?st) (req_head (ex_chan\<lparr>req_head := Some 1\<rparr>)) [1]"
    by (simp add: ex_state_def ex_io_def)
  have h3: "inbox (map_of [(1, ex_io BLOCKDEV_RBD_WRITE 512)]) (Some 1) [1]"
    by (simp add: ex_io_def)
  from io_poll_holds_lock_over_walk [OF h1 h2]
  obtain st' where "blockdev_rbd_io_poll 100 ?st = Some (Inr st')"
    "trace st' = trace ?st @ [MutexLock 100] @ map (delivery (ios ?st)) [1] @ [MutexUnlock 100]"
    "map_option req_head (chans st' 100) = Some None"
    by blast
  then have "blockdev_rbd_io_poll 100 ?st = Some (Inr st')
     \<and> trace st' = [MutexLock 100, SpdkBdevIoComplete 1 SPDK_BDEV_IO_STATUS_FAILED, MutexUnlock 100]
     \<and> map_option req_head (chans st' 100) = Some None"
    by (simp add: delivery_def ex_state_def ex_io_def)
  with h1 h3 show ?thesis by blast
qed

section \<open>Classification of completions\<close>

text \<open>
  C2, as the spec states it: a read succeeds if and only if the byte count the backend
  returns equals the expected length, and every negative return value fails. The callback
  compares with \<open>(int)cmd->len\<close>: a read of \<open>2^32 + 4096\<close> bytes that returns 4096 is
  classified as a success, and so is a read of \<open>2^32 - 1\<close> bytes that returns -1.
\<close>

theorem finish_aiocb_read_not_length_counterexample:
  "status_in (blockdev_rbd_finish_aiocb 1 4096 (ex_state [(1, ex_io BLOCKDEV_RBD_READ 0x100001000)])) 1
     = Some 0
   \<and> sint (4096 :: 32 word) \<noteq> uint (len (ex_io BLOCKDEV_RBD_READ 0x100001000))
   \<and> status_in (blockdev_rbd_finish_aiocb 1 (- 1) (ex_state [(1, ex_io BLOCKDEV_RBD_READ 0xFFFFFFFF)])) 1
     = Some 0
   \<and> sint (- 1 :: 32 word) < 0"
  by (simp add: status_in_def blockdev_rbd_finish_aiocb_def ex_state_def ex_io_def ex_chan_def
      emit_def Let_def)

lemma ucast_len_small:
  fixes n :: "64 word"
  assumes "unat n < 2 ^ 31"
  shows "sint (ucast n :: 32 word) = int (unat n)"
proof -
  have "unat n < 2147483648" using assms by simp
  then have "int (unat n) < 2147483648" by linarith
  then have b: "uint n < 2 ^ 31" by simp
  have "sint (ucast n :: 32 word) = signed_take_bit 31 (uint n)"
  proof -
    have "sint (word_of_int (uint n) :: 32 word) = signed_take_bit (LENGTH(32) - 1) (uint n)"
      by (rule sint_sbintrunc')
    then show ?thesis by (subst ucast_eq) simp
  qed
  also have "\<dots> = uint n"
  proof (rule signed_take_bit_int_eq_self)
    have "0 \<le> uint n" and "(0 :: int) \<le> 2 ^ 31" by simp_all
    then show "- (2 ^ 31) \<le> uint n" by linarith
    show "uint n < 2 ^ 31" by (rule b)
  qed
  finally show ?thesis by simp
qed

text \<open>
  C2, amended. The callback returns and leaves the status 0 (success) or -1 (failed),
  nothing else. A read is a success if and only if the returned value equals the expected
  length converted to \<open>int\<close>; for an expected length below \<open>2^31\<close> that is: if and only
  if the returned byte count equals the expected length. A write is a success if and only
  if the returned status is 0.
\<close>

theorem finish_aiocb_classification:
  assumes "ios st a = Some r" and "chans st (ch r) = Some k"
  shows "\<exists>st' r'.
           blockdev_rbd_finish_aiocb a rv st = Inr st' \<and> ios st' a = Some r'
         \<and> (status r' = 0 \<or> status r' = - 1)
         \<and> (direction r = BLOCKDEV_RBD_READ \<longrightarrow>
              (status r' = 0) = (rv = (ucast (len r) :: 32 word)))
         \<and> (direction r = BLOCKDEV_RBD_READ \<and> unat (len r) < 2 ^ 31 \<longrightarrow>
              (status r' = 0) = (sint rv = int (unat (len r))))
         \<and> (direction r = BLOCKDEV_RBD_WRITE \<longrightarrow> (status r' = 0) = (rv = 0))"
proof -
  let ?r' = "r\<lparr>status := fin_status r rv, io_next := req_head k\<rparr>"
  let ?st' = "\<lparr>ios = (ios st)(a \<mapsto> ?r'),
                chans = (chans st)(ch r \<mapsto> k\<lparr>req_head := Some a\<rparr>),
                trace = trace st @ [RbdAioRelease, MutexLock (ch r), MutexUnlock (ch r)]\<rparr>"
  have 1: "blockdev_rbd_finish_aiocb a rv st = Inr ?st'" by (rule finish_aiocb_step[OF assms])
  have 2: "ios ?st' a = Some ?r'" by simp
  have 3: "status ?r' = 0 \<or> status ?r' = - 1" by (simp add: fin_status_def)
  have 4: "direction r = BLOCKDEV_RBD_READ \<longrightarrow>
              (status ?r' = 0) = (rv = (ucast (len r) :: 32 word))"
    by (auto simp: fin_status_def)
  have 5: "direction r = BLOCKDEV_RBD_READ \<and> unat (len r) < 2 ^ 31 \<longrightarrow>
              (status ?r' = 0) = (sint rv = int (unat (len r)))"
  proof
    assume h: "direction r = BLOCKDEV_RBD_READ \<and> unat (len r) < 2 ^ 31"
    then have e: "sint (ucast (len r) :: 32 word) = int (unat (len r))"
      by (intro ucast_len_small) simp
    have "(rv = (ucast (len r) :: 32 word)) = (sint rv = sint (ucast (len r) :: 32 word))"
      by (rule word_eq_iff_signed)
    then have "(rv = (ucast (len r) :: 32 word)) = (sint rv = int (unat (len r)))"
      by (simp only: e)
    then show "(status ?r' = 0) = (sint rv = int (unat (len r)))"
      using h by (auto simp: fin_status_def)
  qed
  have 6: "direction r = BLOCKDEV_RBD_WRITE \<longrightarrow> (status ?r' = 0) = (rv = 0)"
    by (auto simp: fin_status_def)
  show ?thesis using 1 2 3 4 5 6 by blast
qed

theorem finish_aiocb_classification_witness:
  "ios (ex_state [(1, ex_io BLOCKDEV_RBD_READ 4096)]) 1 = Some (ex_io BLOCKDEV_RBD_READ 4096)
   \<and> chans (ex_state [(1, ex_io BLOCKDEV_RBD_READ 4096)]) (ch (ex_io BLOCKDEV_RBD_READ 4096))
       = Some ex_chan
   \<and> direction (ex_io BLOCKDEV_RBD_READ 4096) = BLOCKDEV_RBD_READ
   \<and> unat (len (ex_io BLOCKDEV_RBD_READ 4096)) < 2 ^ 31
   \<and> (\<exists>st' r'. blockdev_rbd_finish_aiocb 1 4096 (ex_state [(1, ex_io BLOCKDEV_RBD_READ 4096)])
                  = Inr st'
          \<and> ios st' 1 = Some r' \<and> status r' = 0)"
proof -
  have h: "ios (ex_state [(1, ex_io BLOCKDEV_RBD_READ 4096)]) 1 = Some (ex_io BLOCKDEV_RBD_READ 4096)"
    "chans (ex_state [(1, ex_io BLOCKDEV_RBD_READ 4096)]) (ch (ex_io BLOCKDEV_RBD_READ 4096))
       = Some ex_chan"
    by (simp_all add: ex_state_def ex_io_def)
  have d: "direction (ex_io BLOCKDEV_RBD_READ 4096) = BLOCKDEV_RBD_READ"
    "unat (len (ex_io BLOCKDEV_RBD_READ 4096)) < 2 ^ 31"
    "sint (4096 :: 32 word) = int (unat (len (ex_io BLOCKDEV_RBD_READ 4096)))"
    by (simp_all add: ex_io_def)
  from finish_aiocb_classification [OF h, of 4096] d
  have "\<exists>st' r'. blockdev_rbd_finish_aiocb 1 4096 (ex_state [(1, ex_io BLOCKDEV_RBD_READ 4096)])
                  = Inr st'
          \<and> ios st' 1 = Some r' \<and> status r' = 0"
    by blast
  with h d show ?thesis by blast
qed

section \<open>Channel destruction\<close>

text \<open>
  C7, as the spec states it: destroying a channel unregisters the poller first and closes
  the backend connection afterwards. On an open channel the poller is unregistered last.
\<close>

theorem destroy_cb_unregisters_last_counterexample:
  "map_sum id trace (blockdev_rbd_destroy_cb 100 (ex_state []))
     = Inr [RbdFlush, RbdClose, RadosIoctxDestroy, RadosShutdown, SpdkPollerUnregister 100]
   \<and> hd [RbdFlush, RbdClose, RadosIoctxDestroy, RadosShutdown, SpdkPollerUnregister 100]
       \<noteq> SpdkPollerUnregister 100"
  by (simp add: blockdev_rbd_destroy_cb_def blockdev_rbd_exit_def ex_state_def ex_chan_def emit_def)

text \<open>
  C7, amended. Destroying a channel flushes and closes the volume, destroys the pool
  context and shuts the cluster session down, each when its handle is not \<open>NULL\<close> and in
  this order, and unregisters the poller after them.
\<close>

theorem destroy_cb_closes_then_unregisters:
  assumes "chans st c = Some k"
  shows "\<exists>st'. blockdev_rbd_destroy_cb c st = Inr st'
           \<and> trace st' = trace st
                @ (if image k then [RbdFlush, RbdClose] else [])
                @ (if io_ctx k then [RadosIoctxDestroy] else [])
                @ (if cluster k then [RadosShutdown] else [])
                @ [SpdkPollerUnregister c]
           \<and> ios st' = ios st \<and> chans st' = chans st"
  using assms
  by (simp add: blockdev_rbd_destroy_cb_def blockdev_rbd_exit_def emit_def)

theorem destroy_cb_closes_then_unregisters_witness:
  "chans (ex_state []) 100 = Some ex_chan
   \<and> (\<exists>st'. blockdev_rbd_destroy_cb 100 (ex_state []) = Inr st'
         \<and> trace st' = [RbdFlush, RbdClose, RadosIoctxDestroy, RadosShutdown,
                         SpdkPollerUnregister 100])"
proof -
  have h: "chans (ex_state []) 100 = Some ex_chan" by (simp add: ex_state_def)
  from destroy_cb_closes_then_unregisters [OF h]
  have "\<exists>st'. blockdev_rbd_destroy_cb 100 (ex_state []) = Inr st'
         \<and> trace st' = [RbdFlush, RbdClose, RadosIoctxDestroy, RadosShutdown,
                         SpdkPollerUnregister 100]"
    by (auto simp: ex_state_def ex_chan_def)
  with h show ?thesis by blast
qed

section \<open>Submission of writes\<close>

lemma ucast_minus_1: "(ucast (- 1 :: 64 word) :: 32 word) = - 1"
  by (rule bit_word_eqI) (simp add: bit_ucast_iff)

text \<open>
  C6. A write whose segment count is not 1, or whose one segment has not the requested
  length, is refused at once: \<open>blockdev_rbd_writev\<close> returns -1 and leaves the state as it
  is (no completion object is created, no asynchronous write is started, nothing is
  recorded in the trace), and \<open>blockdev_rbd_submit_request\<close> then completes the operation
  as failed itself, which is the only event of the submission.
\<close>

theorem writev_rejected_without_backend_call:
  assumes "io_type b = SPDK_BDEV_IO_TYPE_WRITE"
    and "u_write_iovcnt b \<noteq> 1
         \<or> (\<exists>v vs. u_write_iovs b = v # vs \<and> iov_len v \<noteq> u_write_len b)"
  shows "blockdev_rbd_writev be (io_ch b) (driver_ctx b) (u_write_iovs b) (u_write_iovcnt b)
           (u_write_len b) (u_write_offset b) st = Inr (- 1, st)
       \<and> blockdev_rbd_submit_request be b st
           = Inr (st\<lparr>trace := trace st
                    @ [SpdkBdevIoComplete (driver_ctx b) SPDK_BDEV_IO_STATUS_FAILED]\<rparr>)"
proof -
  have w: "blockdev_rbd_writev be (io_ch b) (driver_ctx b) (u_write_iovs b) (u_write_iovcnt b)
           (u_write_len b) (u_write_offset b) st = Inr (- 1, st)"
    using assms(2) by (auto simp: blockdev_rbd_writev_def)
  have "blockdev_rbd_submit_request_inner be b st = Inr (- 1, st)"
    using assms(1) w by (simp add: blockdev_rbd_submit_request_inner_def ucast_minus_1)
  then have "blockdev_rbd_submit_request be b st
           = Inr (st\<lparr>trace := trace st
                    @ [SpdkBdevIoComplete (driver_ctx b) SPDK_BDEV_IO_STATUS_FAILED]\<rparr>)"
    by (simp add: blockdev_rbd_submit_request_def emit_def)
  with w show ?thesis by simp
qed

theorem writev_rejected_without_backend_call_witness:
  "io_type ex_write2 = SPDK_BDEV_IO_TYPE_WRITE \<and> u_write_iovcnt ex_write2 \<noteq> 1
   \<and> blockdev_rbd_submit_request ok_aio ex_write2 (ex_state [(1, ex_io BLOCKDEV_RBD_WRITE 0)])
       = Inr ((ex_state [(1, ex_io BLOCKDEV_RBD_WRITE 0)])
                \<lparr>trace := [SpdkBdevIoComplete 1 SPDK_BDEV_IO_STATUS_FAILED]\<rparr>)"
proof -
  have h: "io_type ex_write2 = SPDK_BDEV_IO_TYPE_WRITE" "u_write_iovcnt ex_write2 \<noteq> 1"
    by (simp_all add: ex_write2_def)
  from h(2) have h2: "u_write_iovcnt ex_write2 \<noteq> 1
         \<or> (\<exists>v vs. u_write_iovs ex_write2 = v # vs \<and> iov_len v \<noteq> u_write_len ex_write2)"
    by simp
  from writev_rejected_without_backend_call [OF h(1) h2, of ok_aio "ex_state [(1, ex_io BLOCKDEV_RBD_WRITE 0)]"]
  have "blockdev_rbd_submit_request ok_aio ex_write2 (ex_state [(1, ex_io BLOCKDEV_RBD_WRITE 0)])
       = Inr ((ex_state [(1, ex_io BLOCKDEV_RBD_WRITE 0)])
                \<lparr>trace := [SpdkBdevIoComplete 1 SPDK_BDEV_IO_STATUS_FAILED]\<rparr>)"
    by (simp add: ex_write2_def ex_state_def)
  with h show ?thesis by simp
qed

section \<open>Backend bootstrap\<close>

text \<open>
  C3, on the code. When \<open>rados_connect\<close> fails, \<open>blockdev_rados_context_init\<close> shuts the
  cluster session down and then goes on: it creates the pool context on the session it has
  shut down and, if that succeeds, returns 0, so that \<open>blockdev_rbd_init\<close> opens the
  volume on it; if it fails, the session is shut down a second time.
\<close>

theorem rados_connect_failure_not_returned:
  "blockdev_rados_context_init ((ok_backend 1048576)\<lparr>rados_connect_ret := - 1\<rparr>) ''rbd'' False False
     = (0, True, True,
        [RadosCreate, RadosConfReadFile, RadosConnect, RadosShutdown, RadosIoctxCreate ''rbd''])
   \<and> blockdev_rbd_init ((ok_backend 1048576)\<lparr>rados_connect_ret := - 1\<rparr>) ''rbd'' ''vol0''
         \<lparr>info_size = 0\<rparr>
     = (0, \<lparr>info_size = 1048576\<rparr>,
        [RadosCreate, RadosConfReadFile, RadosConnect, RadosShutdown, RadosIoctxCreate ''rbd'',
         RbdOpen ''vol0'', RbdStat, RbdClose])
   \<and> blockdev_rados_context_init
         ((ok_backend 1048576)\<lparr>rados_connect_ret := - 1, rados_ioctx_create_ret := - 1\<rparr>)
         ''rbd'' False False
     = (- 1, True, False,
        [RadosCreate, RadosConfReadFile, RadosConnect, RadosShutdown, RadosIoctxCreate ''rbd'',
         RadosShutdown])"
  by (simp add: blockdev_rados_context_init_def blockdev_rbd_init_def ok_backend_def)

section \<open>Library initialisation\<close>

lemma nval_None: "length sp \<le> i \<Longrightarrow> spdk_conf_section_get_nval sp i = None"
  by (simp add: spdk_conf_section_get_nval_def spdk_conf_section_get_nmval_def)

lemma nval_Some:
  "i < length sp \<Longrightarrow> sp ! i \<noteq> [] \<Longrightarrow> spdk_conf_section_get_nval sp i \<noteq> None"
  by (simp add: spdk_conf_section_get_nval_def spdk_conf_section_get_nmval_def)

lemma nmval_line:
  "i < length sp \<Longrightarrow>
   spdk_conf_section_get_nmval sp i j = spdk_conf_section_get_nmval [sp ! i] 0 j"
  by (simp add: spdk_conf_section_get_nmval_def)

lemma loop_end: "length sp \<le> i \<Longrightarrow> library_init_loop env sp i st = Inr (0, st)"
  by (subst library_init_loop.simps) (simp only: nval_None, simp)

lemma pool_info_init_env:
  "blockdev_rbd_pool_info_init (env\<lparr>backend := b\<rparr>) = blockdev_rbd_pool_info_init env"
  by (intro ext) (simp add: blockdev_rbd_pool_info_init_def Let_def split: option.split)

lemma create_rbd_disk_env:
  "blockdev_create_rbd_disk (env\<lparr>backend := b\<rparr>) = blockdev_create_rbd_disk env"
  by (intro ext) (simp add: blockdev_create_rbd_disk_def)

lemma init_line_body:
  assumes "line \<noteq> []"
  shows "init_line env line i st =
    (case spdk_conf_section_get_nmval [line] 0 0 of
           None \<Rightarrow> cleanup st
         | Some val \<Rightarrow>
             (case blockdev_rbd_pool_info_init env val st of
                (None, st1) \<Rightarrow> cleanup st1
              | (Some pool, st1) \<Rightarrow>
                  (case spdk_conf_section_get_nmval [line] 0 1 of
                     None \<Rightarrow> cleanup st1
                   | Some rbdname \<Rightarrow>
                       (case conf_block_size (spdk_conf_section_get_nmval [line] 0 2) of
                          None \<Rightarrow> cleanup st1
                        | Some block_size \<Rightarrow>
                            let st2 = st1\<lparr>n_calloc := n_calloc st1 + 1\<rparr> in
                            if \<not> calloc_ok env (n_calloc st1) then cleanup st2
                            else
                              let rbd = \<lparr>disk = \<lparr>name = [], product_name = [],
                                                 write_cache = 0, blocklen = 0, blockcnt = 0\<rparr>,
                                         rbd_name = rbdname,
                                         info = \<lparr>info_size = 0\<rparr>, pool_info = pool\<rparr>
                              in (case blockdev_rbd_init (backend env i) pool rbdname (info rbd) of
                                    (ret, info1, es) \<Rightarrow>
                                      let st3 = st2\<lparr>lib_trace := lib_trace st2 @ es\<rparr> in
                                      if sint ret < 0 then cleanup st3
                                      else
                                        (case blockdev_create_rbd_disk env (rbd\<lparr>info := info1\<rparr>)
                                                block_size st3 of
                                           Inl f \<Rightarrow> Inl f
                                         | Inr (ret1, rbd1, st4) \<Rightarrow>
                                             if sint ret1 < 0 then cleanup st4
                                             else
                                               Inr (0,
                                                 st4\<lparr>g_rbds := g_rbds st4 @ [rbd1],
                                                     lib_trace := lib_trace st4 @
                                                       [SpdkIoDeviceRegister (name (disk rbd1)),
                                                        SpdkBdevRegister (name (disk rbd1))]\<rparr>)))))))"
proof -
  have b: "spdk_conf_section_get_nval [line] 0 \<noteq> None"
    using assms by (intro nval_Some) simp_all
  have e: "\<And>env' st'. library_init_loop env' [line] (0 + 1) st' = Inr (0, st')"
    by (rule loop_end) simp
  have sel: "calloc_ok (env\<lparr>backend := \<lambda>k. backend env i\<rparr>) = calloc_ok env"
    "backend (env\<lparr>backend := \<lambda>k. backend env i\<rparr>) 0 = backend env i"
    by simp_all
  show ?thesis
    unfolding init_line_def
    by (subst library_init_loop.simps)
       (simp only: b if_False e sel pool_info_init_env create_rbd_disk_env)
qed

lemma loop_unfold:
  assumes "i < length sp" and "sp ! i \<noteq> []"
  shows "library_init_loop env sp i st =
           (case init_line env (sp ! i) i st of
              Inl f \<Rightarrow> Inl f
            | Inr (ret, st') \<Rightarrow>
                if ret = 0 then library_init_loop env sp (i + 1) st' else Inr (ret, st'))"
proof -
  define k :: "fault + (32 word \<times> lib_state) \<Rightarrow> fault + (32 word \<times> lib_state)" where
    "k = (\<lambda>res. case res of
              Inl f \<Rightarrow> Inl f
            | Inr (ret, st') \<Rightarrow>
                if ret = 0 then library_init_loop env sp (i + 1) st' else Inr (ret, st'))"
  have k1: "\<And>x. k (cleanup x) = cleanup x" by (simp add: k_def cleanup_def)
  have k2: "\<And>f. k (Inl f) = Inl f" by (simp add: k_def)
  have k3: "\<And>x. k (Inr (0, x)) = library_init_loop env sp (i + 1) x" by (simp add: k_def)
  have a: "spdk_conf_section_get_nval sp i \<noteq> None" using assms by (rule nval_Some)
  have l: "library_init_loop env sp i st = k (init_line env (sp ! i) i st)"
    apply (subst library_init_loop.simps)
    apply (simp only: init_line_body[OF assms(2)] a if_False nmval_line[OF assms(1)])
    apply (simp only: Let_def option.case_distrib[of k] prod.case_distrib[of k]
        sum.case_distrib[of k] if_distrib[of k] k1 k2 k3)
    done
  show ?thesis unfolding l k_def ..
qed

lemma loop_single: "line \<noteq> [] \<Longrightarrow> library_init_loop env [line] 0 st = init_line env line 0 st"
  by (subst loop_unfold) (simp_all add: loop_end split: sum.split)

lemma init_line_not_zero_stop:
  "line \<noteq> [] \<Longrightarrow> init_line env line i st = Inr (ret, st') \<Longrightarrow> ret = 0 \<or> ret = - 1"
  by (simp add: init_line_body cleanup_def Let_def
      split: option.splits prod.splits sum.splits if_splits)

lemma loop_prefix:
  assumes "\<forall>e \<in> set pre. e \<noteq> []"
    and "library_init_loop env pre i st = Inr (0, st1)" and "i \<le> length pre"
  shows "library_init_loop env (pre @ post) i st
           = library_init_loop env (pre @ post) (length pre) st1"
  using assms(2,3)
proof (induction "length pre - i" arbitrary: i st)
  case 0
  then have "i = length pre" by simp
  moreover from this have "library_init_loop env pre i st = Inr (0, st)" by (simp add: loop_end)
  ultimately show ?case using 0(2) by simp
next
  case (Suc n)
  then have lt: "i < length pre" by simp
  then have ne: "pre ! i \<noteq> []" using assms(1) by simp
  have lt': "i < length (pre @ post)" and ne': "(pre @ post) ! i \<noteq> []"
    and same: "(pre @ post) ! i = pre ! i"
    using lt ne by (simp_all add: nth_append)
  show ?case
  proof (cases "init_line env (pre ! i) i st")
    case (Inl f)
    then have "library_init_loop env pre i st = Inl f"
      by (simp add: loop_unfold[OF lt ne])
    with Suc.prems(1) show ?thesis by simp
  next
    case (Inr p)
    obtain ret st' where p: "p = (ret, st')" by (cases p)
    show ?thesis
    proof (cases "ret = 0")
      case True
      have 1: "library_init_loop env pre i st = library_init_loop env pre (i + 1) st'"
        using Inr p True by (simp add: loop_unfold[OF lt ne])
      have 2: "library_init_loop env (pre @ post) i st
                 = library_init_loop env (pre @ post) (i + 1) st'"
        using Inr p True by (simp add: loop_unfold[OF lt' ne'] same)
      have "n = length pre - (i + 1)" using Suc.hyps(2) by simp
      from Suc.hyps(1)[OF this] 1 Suc.prems(1) lt
      have "library_init_loop env (pre @ post) (i + 1) st'
              = library_init_loop env (pre @ post) (length pre) st1"
        by simp
      with 2 show ?thesis by simp
    next
      case False
      then have "library_init_loop env pre i st = Inr (ret, st')"
        using Inr p by (simp add: loop_unfold[OF lt ne])
      with Suc.prems(1) False show ?thesis by simp
    qed
  qed
qed

lemma pool_info_init_result:
  "\<exists>r st1. blockdev_rbd_pool_info_init env pool st = (r, st1)
      \<and> (r = None \<or> r = Some pool)
      \<and> (calloc_ok env (n_calloc st) \<longrightarrow> r = Some pool)
      \<and> g_rbds st1 = g_rbds st \<and> blockdev_rbd_count st1 = blockdev_rbd_count st
      \<and> lib_trace st1 = lib_trace st"
proof (cases "find (\<lambda>nm. nm = pool) (g_rbd_pools st)")
  case None
  then show ?thesis by (simp add: blockdev_rbd_pool_info_init_def Let_def)
next
  case (Some nm)
  then have "nm = pool" by (auto simp: find_Some_iff)
  with Some show ?thesis by (simp add: blockdev_rbd_pool_info_init_def)
qed

lemma nmval_single:
  "spdk_conf_section_get_nmval [pool # vol # rest] 0 0 = Some pool"
  "spdk_conf_section_get_nmval [pool # vol # rest] 0 1 = Some vol"
  "spdk_conf_section_get_nmval [pool # vol # rest] 0 (Suc 0) = Some vol"
  "spdk_conf_section_get_nmval [pool # vol # rest] 0 2 = (case rest of [] \<Rightarrow> None | b # bs \<Rightarrow> Some b)"
  by (simp_all add: spdk_conf_section_get_nmval_def split: list.split)

lemma rbd_init_ret: 
  "fst (blockdev_rbd_init be p v inf0) = 0 \<or> fst (blockdev_rbd_init be p v inf0) = - 1"
  by (simp add: blockdev_rbd_init_def blockdev_rados_context_init_def Let_def)

lemma rbd_init_ok:
  assumes "fst (blockdev_rbd_init be p v inf0) = 0"
  shows "blockdev_rbd_init be p v inf0
           = (0, inf0\<lparr>info_size := rbd_stat_size be\<rparr>, snd (snd (blockdev_rbd_init be p v inf0)))"
  using assms
  by (simp add: blockdev_rbd_init_def blockdev_rados_context_init_def Let_def split: if_splits)

lemma init_line_refused:
  assumes "conf_block_size (Some b) = None"
  shows "\<exists>st'. init_line env (pool # vol # b # rest) i st = Inr (- 1, st')
           \<and> g_rbds st' = [] \<and> g_rbd_pools st' = [] \<and> lib_trace st' = lib_trace st
           \<and> blockdev_rbd_count st' = blockdev_rbd_count st"
proof -
  obtain r st1 where p: "blockdev_rbd_pool_info_init env pool st = (r, st1)"
    "r = None \<or> r = Some pool" "g_rbds st1 = g_rbds st"
    "blockdev_rbd_count st1 = blockdev_rbd_count st" "lib_trace st1 = lib_trace st"
    using pool_info_init_result by blast
  have "init_line env (pool # vol # b # rest) i st = cleanup st1"
    using p(1,2) assms by (auto simp: init_line_body nmval_single)
  then show ?thesis using p(3,4,5) by (simp add: cleanup_def blockdev_rbd_library_fini_def)
qed

lemma init_line_backend_fails:
  assumes "conf_block_size (case rest of [] \<Rightarrow> None | b # bs \<Rightarrow> Some b) \<noteq> None"
    and "\<forall>n. calloc_ok env n"
    and "sint (fst (blockdev_rbd_init (backend env i) pool vol \<lparr>info_size = 0\<rparr>)) < 0"
  shows "\<exists>st'. init_line env (pool # vol # rest) i st = Inr (- 1, st')
           \<and> g_rbds st' = [] \<and> g_rbd_pools st' = []
           \<and> lib_trace st' = lib_trace st
                @ snd (snd (blockdev_rbd_init (backend env i) pool vol \<lparr>info_size = 0\<rparr>))
           \<and> blockdev_rbd_count st' = blockdev_rbd_count st"
proof -
  obtain r st1 where p: "blockdev_rbd_pool_info_init env pool st = (r, st1)"
    "calloc_ok env (n_calloc st) \<longrightarrow> r = Some pool" "g_rbds st1 = g_rbds st"
    "blockdev_rbd_count st1 = blockdev_rbd_count st" "lib_trace st1 = lib_trace st"
    using pool_info_init_result by blast
  then have r: "r = Some pool" using assms(2) by simp
  obtain bs where bs: "conf_block_size (case rest of [] \<Rightarrow> None | b # bs \<Rightarrow> Some b) = Some bs"
    using assms(1) by blast
  obtain ret inf1 es where i: "blockdev_rbd_init (backend env i) pool vol \<lparr>info_size = 0\<rparr> = (ret, inf1, es)"
    by (cases "blockdev_rbd_init (backend env i) pool vol \<lparr>info_size = 0\<rparr>") auto
  have "init_line env (pool # vol # rest) i st
          = cleanup (st1\<lparr>n_calloc := n_calloc st1 + 1, lib_trace := lib_trace st1 @ es\<rparr>)"
    using p(1) r bs assms(2,3) i by (simp add: init_line_body nmval_single)
  then show ?thesis using p(3,4,5) i by (simp add: cleanup_def blockdev_rbd_library_fini_def)
qed

lemma init_line_ok:
  assumes "conf_block_size (case rest of [] \<Rightarrow> None | b # bs \<Rightarrow> Some b) = Some bs"
    and "\<forall>n. calloc_ok env n"
    and "fst (blockdev_rbd_init (backend env i) pool vol \<lparr>info_size = 0\<rparr>) = 0"
  shows "\<exists>st1. g_rbds st1 = g_rbds st \<and> blockdev_rbd_count st1 = blockdev_rbd_count st
           \<and> lib_trace st1 = lib_trace st 
           \<and> init_line env (pool # vol # rest) i st =
              (if bs = 0 then Inl DivideByZero
               else Inr (0, st1\<lparr>n_calloc := n_calloc st1 + 1,
                         blockdev_rbd_count := blockdev_rbd_count st + 1,
                         g_rbds := g_rbds st @
                           [\<lparr>disk = \<lparr>name = snprintf (max_name_length env)
                                            (''Ceph'' @ printf_d (sint (blockdev_rbd_count st))),
                             product_name = snprintf (max_product_name_length env) ''Ceph rbd'',
                             write_cache = 0, blocklen = bs,
                             blockcnt = rbd_stat_size (backend env i) div ucast bs\<rparr>,
                             rbd_name = vol,
                             info = \<lparr>info_size = rbd_stat_size (backend env i)\<rparr>,
                             pool_info = pool\<rparr>],
                         lib_trace := lib_trace st
                           @ snd (snd (blockdev_rbd_init (backend env i) pool vol \<lparr>info_size = 0\<rparr>))
                           @ [SpdkIoDeviceRegister (snprintf (max_name_length env)
                                            (''Ceph'' @ printf_d (sint (blockdev_rbd_count st)))),
                              SpdkBdevRegister (snprintf (max_name_length env)
                                            (''Ceph'' @ printf_d (sint (blockdev_rbd_count st))))]\<rparr>))"
proof -
  obtain r st1 where p: "blockdev_rbd_pool_info_init env pool st = (r, st1)"
    "calloc_ok env (n_calloc st) \<longrightarrow> r = Some pool" "g_rbds st1 = g_rbds st"
    "blockdev_rbd_count st1 = blockdev_rbd_count st" "lib_trace st1 = lib_trace st"
    using pool_info_init_result by blast
  then have r: "r = Some pool" using assms(2) by simp
  obtain es where i: "blockdev_rbd_init (backend env i) pool vol \<lparr>info_size = 0\<rparr>
                        = (0, \<lparr>info_size = rbd_stat_size (backend env i)\<rparr>, es)"
    using rbd_init_ok[OF assms(3)] by simp
  have "init_line env (pool # vol # rest) i st =
              (if bs = 0 then Inl DivideByZero
               else Inr (0, st1\<lparr>n_calloc := n_calloc st1 + 1,
                         blockdev_rbd_count := blockdev_rbd_count st + 1,
                         g_rbds := g_rbds st @
                           [\<lparr>disk = \<lparr>name = snprintf (max_name_length env)
                                            (''Ceph'' @ printf_d (sint (blockdev_rbd_count st))),
                             product_name = snprintf (max_product_name_length env) ''Ceph rbd'',
                             write_cache = 0, blocklen = bs,
                             blockcnt = rbd_stat_size (backend env i) div ucast bs\<rparr>,
                             rbd_name = vol,
                             info = \<lparr>info_size = rbd_stat_size (backend env i)\<rparr>,
                             pool_info = pool\<rparr>],
                         lib_trace := lib_trace st
                           @ snd (snd (blockdev_rbd_init (backend env i) pool vol \<lparr>info_size = 0\<rparr>))
                           @ [SpdkIoDeviceRegister (snprintf (max_name_length env)
                                            (''Ceph'' @ printf_d (sint (blockdev_rbd_count st)))),
                              SpdkBdevRegister (snprintf (max_name_length env)
                                            (''Ceph'' @ printf_d (sint (blockdev_rbd_count st))))]\<rparr>))"
    using p(1,3,4,5) r assms(1,2)
    by (simp add: init_line_body nmval_single i blockdev_create_rbd_disk_def Let_def)
  with p(3,4,5) show ?thesis by blast
qed


lemma library_init_single:
  "line \<noteq> [] \<Longrightarrow> blockdev_rbd_library_init env (Some [line]) st = init_line env line 0 st"
  by (simp add: blockdev_rbd_library_init_def loop_single)

lemma dvd_512_word:
  "((word_of_int v :: 32 word) AND 0x1ff = 0) = (512 dvd v)"
proof -
  have "(word_of_int v :: 32 word) AND 0x1ff = take_bit 9 (word_of_int v :: 32 word)"
    by (simp add: take_bit_eq_mask mask_eq_exp_minus_1)
  also have "\<dots> = word_of_int (take_bit 9 v)"
    by (simp add: take_bit_of_int)
  finally have "((word_of_int v :: 32 word) AND 0x1ff = 0) = ((word_of_int (take_bit 9 v) :: 32 word) = 0)"
    by simp
  also have "\<dots> = (take_bit 9 v = 0)"
  proof -
    have lt: "take_bit 9 v < 4294967296"
      using take_bit_int_less_exp [of 9 v] by simp
    have ge: "0 \<le> take_bit 9 v" by simp
    have "\<not> (4294967296 :: int) dvd take_bit 9 v" if "take_bit 9 v \<noteq> 0"
    proof (rule zdvd_not_zless)
      show "0 < take_bit 9 v" using ge that by linarith
      show "take_bit 9 v < 4294967296" by (rule lt)
    qed
    then show ?thesis by (auto simp: word_of_int_eq_0_iff)
  qed
  also have "\<dots> = (512 dvd v)"
    by (simp add: take_bit_eq_mod dvd_eq_mod_eq_0)
  finally show ?thesis .
qed

lemma conf_block_size_Some:
  "conf_block_size (Some s) = (if 512 dvd strtol s then Some (word_of_int (strtol s)) else None)"
  by (simp add: conf_block_size_def Let_def dvd_512_word)

lemmas strtol_defs = strtol_def c_isspace_def c_isdigit_def digits_value_def

text \<open>
  C8. An absent block size gives 512. A configured block size is accepted by the check of
  lines 544 to 548 if and only if its value (as \<open>strtol\<close> reads it) is a multiple of 512,
  and the block size is then that value in 32 bits: 511 and 1023 are refused, 512 and 4096
  are accepted. A refused value aborts the initialisation with -1 and no device is made;
  an accepted one that is not 0 in 32 bits becomes the block length of the device made,
  when the allocations and the backend bootstrap succeed.
\<close>

theorem block_size_validation:
  "conf_block_size None = Some 512
   \<and> conf_block_size (Some s) = (if 512 dvd strtol s then Some (word_of_int (strtol s)) else None)
   \<and> conf_block_size (Some ''511'') = None \<and> conf_block_size (Some ''1023'') = None
   \<and> conf_block_size (Some ''512'') = Some 512 \<and> conf_block_size (Some ''4096'') = Some 4096
   \<and> (\<not> 512 dvd strtol s \<longrightarrow>
        (\<exists>st'. blockdev_rbd_library_init env (Some [[pool, vol, s]]) st = Inr (- 1, st')
               \<and> g_rbds st' = [] \<and> lib_trace st' = lib_trace st))
   \<and> (512 dvd strtol s \<and> word_of_int (strtol s) \<noteq> (0 :: 32 word) \<and> (\<forall>n. calloc_ok env n)
        \<and> fst (blockdev_rbd_init (backend env 0) pool vol \<lparr>info_size = 0\<rparr>) = 0 \<longrightarrow>
        (\<exists>st' d. blockdev_rbd_library_init env (Some [[pool, vol, s]]) st = Inr (0, st')
               \<and> g_rbds st' = g_rbds st @ [d] \<and> blocklen (disk d) = word_of_int (strtol s)))"
proof -
  have 1: "conf_block_size None = Some 512" by (simp add: conf_block_size_def)
  have 2: "conf_block_size (Some ''511'') = None" "conf_block_size (Some ''1023'') = None"
    "conf_block_size (Some ''512'') = Some 512" "conf_block_size (Some ''4096'') = Some 4096"
    by (simp_all add: conf_block_size_def strtol_defs)
  have 3: "\<exists>st'. blockdev_rbd_library_init env (Some [[pool, vol, s]]) st = Inr (- 1, st')
               \<and> g_rbds st' = [] \<and> lib_trace st' = lib_trace st"
    if "\<not> 512 dvd strtol s"
  proof -
    have "conf_block_size (Some s) = None" using that by (simp add: conf_block_size_Some)
    from init_line_refused[OF this, of env pool vol "[]" 0 st] show ?thesis
      by (auto simp: library_init_single)
  qed
  have 4: "\<exists>st' d. blockdev_rbd_library_init env (Some [[pool, vol, s]]) st = Inr (0, st')
               \<and> g_rbds st' = g_rbds st @ [d] \<and> blocklen (disk d) = word_of_int (strtol s)"
    if h: "512 dvd strtol s \<and> word_of_int (strtol s) \<noteq> (0 :: 32 word) \<and> (\<forall>n. calloc_ok env n)
        \<and> fst (blockdev_rbd_init (backend env 0) pool vol \<lparr>info_size = 0\<rparr>) = 0"
  proof -
    have b: "conf_block_size (case [s] of [] \<Rightarrow> None | b # bs \<Rightarrow> Some b)
               = Some (word_of_int (strtol s))"
      using h by (simp add: conf_block_size_Some)
    from h have c: "\<forall>n. calloc_ok env n"
      and i: "fst (blockdev_rbd_init (backend env 0) pool vol \<lparr>info_size = 0\<rparr>) = 0"
      and nz: "word_of_int (strtol s) \<noteq> (0 :: 32 word)" by simp_all
    from init_line_ok[OF b c i, of st] nz show ?thesis
      by (auto simp: library_init_single)
  qed
  show ?thesis using 1 2 3 4 conf_block_size_Some by blast
qed

theorem block_size_validation_witness:
  "\<not> 512 dvd strtol ''511''
   \<and> (\<exists>st'. blockdev_rbd_library_init (ex_env (\<lambda>i. ok_backend 1048576))
               (Some [[''rbd'', ''vol0'', ''511'']]) lib_state0 = Inr (- 1, st')
          \<and> g_rbds st' = [] \<and> lib_trace st' = [])
   \<and> 512 dvd strtol ''4096'' \<and> word_of_int (strtol ''4096'') \<noteq> (0 :: 32 word)
   \<and> fst (blockdev_rbd_init (ok_backend 1048576) ''rbd'' ''vol0'' \<lparr>info_size = 0\<rparr>) = 0
   \<and> (\<exists>st' d. blockdev_rbd_library_init (ex_env (\<lambda>i. ok_backend 1048576))
                 (Some [[''rbd'', ''vol0'', ''4096'']]) lib_state0 = Inr (0, st')
          \<and> g_rbds st' = [d] \<and> blocklen (disk d) = 4096)"
proof -
  have a: "\<not> 512 dvd strtol ''511''" by (simp add: strtol_defs)
  have b: "512 dvd strtol ''4096''" "word_of_int (strtol ''4096'') \<noteq> (0 :: 32 word)"
    "word_of_int (strtol ''4096'') = (4096 :: 32 word)"
    by (simp_all add: strtol_defs)
  have c: "\<forall>n. calloc_ok (ex_env (\<lambda>i. ok_backend 1048576)) n"
    "backend (ex_env (\<lambda>i. ok_backend 1048576)) 0 = ok_backend 1048576"
    by (simp_all add: ex_env_def)
  have d: "fst (blockdev_rbd_init (ok_backend 1048576) ''rbd'' ''vol0'' \<lparr>info_size = 0\<rparr>) = 0"
    by (simp add: blockdev_rbd_init_def blockdev_rados_context_init_def ok_backend_def)
  from block_size_validation [of "''511''" "ex_env (\<lambda>i. ok_backend 1048576)" "''rbd''" "''vol0''" lib_state0] a
  have 1: "\<exists>st'. blockdev_rbd_library_init (ex_env (\<lambda>i. ok_backend 1048576))
               (Some [[''rbd'', ''vol0'', ''511'']]) lib_state0 = Inr (- 1, st')
          \<and> g_rbds st' = [] \<and> lib_trace st' = []"
    by (simp add: lib_state0_def)
  from block_size_validation [of "''4096''" "ex_env (\<lambda>i. ok_backend 1048576)" "''rbd''" "''vol0''" lib_state0]
    b c d
  have 2: "\<exists>st' d. blockdev_rbd_library_init (ex_env (\<lambda>i. ok_backend 1048576))
                 (Some [[''rbd'', ''vol0'', ''4096'']]) lib_state0 = Inr (0, st')
          \<and> g_rbds st' = [d] \<and> blocklen (disk d) = 4096"
    by (simp add: lib_state0_def)
  show ?thesis using a b(1,2) d 1 2 by blast
qed















text \<open>
  C10. The block size 0 passes the check (\<open>0 & 0x1ff\<close> is 0), and
  \<open>blockdev_create_rbd_disk\<close> with block size 0 divides the volume size by zero: so does
  the initialisation of a device configured with block size 0, once its allocations and
  its backend bootstrap have succeeded.
\<close>

theorem zero_block_size_divides_by_zero:
  assumes "\<forall>n. calloc_ok env n"
    and "fst (blockdev_rbd_init (backend env 0) pool vol \<lparr>info_size = 0\<rparr>) = 0"
  shows "conf_block_size (Some ''0'') = Some 0
       \<and> (0 :: 32 word) AND 0x1ff = 0
       \<and> blockdev_create_rbd_disk env d 0 st = Inl DivideByZero
       \<and> blockdev_rbd_library_init env (Some [[pool, vol, ''0'']]) st = Inl DivideByZero"
proof -
  have z: "conf_block_size (Some ''0'') = Some 0"
    by (simp add: conf_block_size_def strtol_defs)
  then have b: "conf_block_size (case [''0''] of [] \<Rightarrow> None | b # bs \<Rightarrow> Some b) = Some 0"
    by simp
  have c: "blockdev_create_rbd_disk env d 0 st = Inl DivideByZero"
    by (simp add: blockdev_create_rbd_disk_def Let_def)
  from init_line_ok[OF b assms, of st]
  have "blockdev_rbd_library_init env (Some [[pool, vol, ''0'']]) st = Inl DivideByZero"
    by (auto simp: library_init_single)
  with z c show ?thesis by simp
qed

theorem zero_block_size_divides_by_zero_witness:
  "fst (blockdev_rbd_init (ok_backend 1048576) ''rbd'' ''vol0'' \<lparr>info_size = 0\<rparr>) = 0
   \<and> blockdev_rbd_library_init (ex_env (\<lambda>i. ok_backend 1048576))
        (Some [[''rbd'', ''vol0'', ''0'']]) lib_state0 = Inl DivideByZero"
proof -
  let ?env = "ex_env (\<lambda>i. ok_backend 1048576)"
  have c: "\<forall>n. calloc_ok ?env n" by (simp add: ex_env_def)
  have d: "fst (blockdev_rbd_init (ok_backend 1048576) ''rbd'' ''vol0'' \<lparr>info_size = 0\<rparr>) = 0"
    by (simp add: blockdev_rbd_init_def blockdev_rados_context_init_def ok_backend_def)
  then have d': "fst (blockdev_rbd_init (backend ?env 0) ''rbd'' ''vol0'' \<lparr>info_size = 0\<rparr>) = 0"
    by (simp add: ex_env_def)
  from zero_block_size_divides_by_zero [OF c d'] d show ?thesis by simp
qed

text \<open>
  C4, as the spec states it: when the backend connection of one configured device fails,
  the initialisation goes on with the other devices and those made before stay. With three
  configured devices and a failure for the second one, the initialisation returns -1 with
  empty device and pool lists, and makes no backend call for the third device.
\<close>

theorem library_init_continues_counterexample:
  "blockdev_rbd_library_init (ex_env ex_backend3) (Some ex_conf3) lib_state0
     = Inr (- 1,
            \<lparr>g_rbd_pools = [], g_rbds = [], blockdev_rbd_count = 1, n_calloc = 3,
             lib_trace = [RadosCreate, RadosConfReadFile, RadosConnect, RadosIoctxCreate ''rbd'',
                          RbdOpen ''vol0'', RbdStat, RbdClose,
                          SpdkIoDeviceRegister ''Ceph0'', SpdkBdevRegister ''Ceph0'',
                          RadosCreate]\<rparr>)"
  by code_simp

text \<open>
  C4, amended. Let the lines \<open>pre\<close> initialise successfully, and let the backend bootstrap
  of the next line fail (its allocations having succeeded and its block size being valid).
  Then the initialisation returns -1 whatever lines follow, the device and pool lists are
  empty afterwards, and after the lines \<open>pre\<close> nothing has happened but the backend calls
  of the failed bootstrap: the device is not registered and no later line is processed.
\<close>

theorem library_init_aborts_on_backend_failure:
  assumes "\<forall>e \<in> set pre. e \<noteq> []"
    and "blockdev_rbd_library_init env (Some pre) st = Inr (0, st1)"
    and "conf_block_size (case rest of [] \<Rightarrow> None | b # bs \<Rightarrow> Some b) \<noteq> None"
    and "\<forall>n. calloc_ok env n"
    and "sint (fst (blockdev_rbd_init (backend env (length pre)) pool vol \<lparr>info_size = 0\<rparr>)) < 0"
  shows "\<exists>st'. blockdev_rbd_library_init env (Some (pre @ (pool # vol # rest) # post)) st
                 = Inr (- 1, st')
           \<and> g_rbds st' = [] \<and> g_rbd_pools st' = []
           \<and> lib_trace st' = lib_trace st1
                @ snd (snd (blockdev_rbd_init (backend env (length pre)) pool vol \<lparr>info_size = 0\<rparr>))
           \<and> blockdev_rbd_count st' = blockdev_rbd_count st1"
proof -
  let ?sp = "pre @ (pool # vol # rest) # post"
  have l: "library_init_loop env pre 0 st = Inr (0, st1)"
    using assms(2) by (simp add: blockdev_rbd_library_init_def)
  have 1: "library_init_loop env ?sp 0 st = library_init_loop env ?sp (length pre) st1"
    by (rule loop_prefix[OF assms(1) l]) simp
  have i: "length pre < length ?sp" "?sp ! length pre = pool # vol # rest" by simp_all
  then have ne: "?sp ! length pre \<noteq> []" by simp
  from init_line_backend_fails[OF assms(3,4,5), of st1]
  obtain st' where s: "init_line env (pool # vol # rest) (length pre) st1 = Inr (- 1, st')"
    "g_rbds st' = []" "g_rbd_pools st' = []"
    "lib_trace st' = lib_trace st1
                @ snd (snd (blockdev_rbd_init (backend env (length pre)) pool vol \<lparr>info_size = 0\<rparr>))"
    "blockdev_rbd_count st' = blockdev_rbd_count st1"
    by blast
  have "library_init_loop env ?sp (length pre) st1 = Inr (- 1, st')"
    using s(1) by (simp add: loop_unfold[OF i(1) ne] i(2))
  with 1 have "blockdev_rbd_library_init env (Some ?sp) st = Inr (- 1, st')"
    by (simp add: blockdev_rbd_library_init_def)
  with s(2,3,4,5) show ?thesis by blast
qed

theorem library_init_aborts_on_backend_failure_witness:
  "[''rbd'', ''vol0''] \<noteq> []
   \<and> blockdev_rbd_library_init (ex_env ex_backend3) (Some [[''rbd'', ''vol0'']]) lib_state0
      = Inr (0, \<lparr>g_rbd_pools = [''rbd''],
                 g_rbds = [\<lparr>disk = \<lparr>name = ''Ceph0'', product_name = ''Ceph rbd'',
                            write_cache = 0, blocklen = 512, blockcnt = 2048\<rparr>,
                            rbd_name = ''vol0'', info = \<lparr>info_size = 1048576\<rparr>,
                            pool_info = ''rbd''\<rparr>],
                 blockdev_rbd_count = 1, n_calloc = 2,
                 lib_trace = [RadosCreate, RadosConfReadFile, RadosConnect,
                              RadosIoctxCreate ''rbd'', RbdOpen ''vol0'', RbdStat, RbdClose,
                              SpdkIoDeviceRegister ''Ceph0'', SpdkBdevRegister ''Ceph0'']\<rparr>)
   \<and> sint (fst (blockdev_rbd_init (ex_backend3 1) ''rbd'' ''vol1'' \<lparr>info_size = 0\<rparr>)) < 0
   \<and> (\<exists>st'. blockdev_rbd_library_init (ex_env ex_backend3) (Some ex_conf3) lib_state0
                = Inr (- 1, st')
          \<and> g_rbds st' = [] \<and> g_rbd_pools st' = []
          \<and> lib_trace st' = [RadosCreate, RadosConfReadFile, RadosConnect,
                              RadosIoctxCreate ''rbd'', RbdOpen ''vol0'', RbdStat, RbdClose,
                              SpdkIoDeviceRegister ''Ceph0'', SpdkBdevRegister ''Ceph0'',
                              RadosCreate])"
proof -
  let ?env = "ex_env ex_backend3"
  let ?st1 = "\<lparr>g_rbd_pools = [''rbd''],
                 g_rbds = [\<lparr>disk = \<lparr>name = ''Ceph0'', product_name = ''Ceph rbd'',
                            write_cache = 0, blocklen = 512, blockcnt = 2048\<rparr>,
                            rbd_name = ''vol0'', info = \<lparr>info_size = 1048576\<rparr>,
                            pool_info = ''rbd''\<rparr>],
                 blockdev_rbd_count = 1, n_calloc = 2,
                 lib_trace = [RadosCreate, RadosConfReadFile, RadosConnect,
                              RadosIoctxCreate ''rbd'', RbdOpen ''vol0'', RbdStat, RbdClose,
                              SpdkIoDeviceRegister ''Ceph0'', SpdkBdevRegister ''Ceph0'']\<rparr>"
  have h1: "\<forall>e \<in> set [[''rbd'', ''vol0'']]. e \<noteq> []" by simp
  have h2: "blockdev_rbd_library_init ?env (Some [[''rbd'', ''vol0'']]) lib_state0 = Inr (0, ?st1)"
    by code_simp
  have h3: "conf_block_size (case [] of [] \<Rightarrow> None | b # bs \<Rightarrow> Some b) \<noteq> None"
    by (simp add: conf_block_size_def)
  have h4: "\<forall>n. calloc_ok ?env n" by (simp add: ex_env_def)
  have e: "blockdev_rbd_init (ex_backend3 1) ''rbd'' ''vol1'' \<lparr>info_size = 0\<rparr>
             = (- 1, \<lparr>info_size = 0\<rparr>, [RadosCreate])"
    by (simp add: blockdev_rbd_init_def blockdev_rados_context_init_def ex_backend3_def
        ok_backend_def)
  then have h5: "sint (fst (blockdev_rbd_init (backend ?env (length [[''rbd'', ''vol0'']]))
                    ''rbd'' ''vol1'' \<lparr>info_size = 0\<rparr>)) < 0"
    by (simp add: ex_env_def)
  from library_init_aborts_on_backend_failure [OF h1 h2 h3 h4 h5, of "[[''rbd'', ''vol2'']]"]
  have "\<exists>st'. blockdev_rbd_library_init ?env (Some ex_conf3) lib_state0 = Inr (- 1, st')
          \<and> g_rbds st' = [] \<and> g_rbd_pools st' = []
          \<and> lib_trace st' = [RadosCreate, RadosConfReadFile, RadosConnect,
                              RadosIoctxCreate ''rbd'', RbdOpen ''vol0'', RbdStat, RbdClose,
                              SpdkIoDeviceRegister ''Ceph0'', SpdkBdevRegister ''Ceph0'',
                              RadosCreate]"
    using e by (auto simp: ex_conf3_def ex_env_def)
  moreover have "sint (fst (blockdev_rbd_init (ex_backend3 1) ''rbd'' ''vol1'' \<lparr>info_size = 0\<rparr>)) < 0"
    using e by simp
  ultimately show ?thesis using h2 by blast
qed

end
